theory Spec2Isabelle
  imports Main "HOL-Library.Word"
begin

section \<open>Python values\<close>

text \<open>
  The values that travel through the wrapper (cubit_wrapper3.py and
  cubit_wrapper_utility.py).  A \<open>float\<close> is its IEEE double bit pattern: the code
  never computes with floats, it only passes them on.  A numeric value carries whether
  its class is exactly \<open>int\<close>/\<open>float\<close> or a subclass of it (numpy.float64 is a
  subclass of float); \<open>bool\<close>, the subclass of int that the language itself has, is a
  constructor of its own.  \<open>PyNumpyInt\<close> is a numpy integer scalar (numpy.int64 and the
  like) and \<open>PyNumpyFloat32\<close> a numpy.float32, by its bit pattern: numbers that are
  instances of neither int nor float, and what iterating over an array of that type
  yields.  A string is a list of code points below 256.
  \<open>PyArray\<close> is a numpy.ndarray of one or more dimensions, given by the items that
  iterating over it yields.  \<open>PyObject\<close> is an instance of CubitObject or of
  CubitObjectMain with its attribute \<open>cubit_id\<close>; the attribute \<open>cubit_connect\<close>
  is the one connection of the model.  \<open>PyGeometry\<close> is a member of the enum
  GeometryType (cupy.geometry).
\<close>

datatype numclass = Exact | Subclass

datatype geometry = vertex | curve | surface | volume

datatype cubit_class = CubitObject | CubitObjectMain

datatype pyval =
    PyNone
  | PyBool bool
  | PyInt numclass int
  | PyFloat numclass "64 word"
  | PyNumpyInt int
  | PyNumpyFloat32 "32 word"
  | PyStr string
  | PyList "pyval list"
  | PyTuple "pyval list"
  | PyArray "pyval list"
  | PyDict "(pyval \<times> pyval) list"
  | PyObject cubit_class pyval
  | PyGeometry geometry

type_synonym cubit_object = "cubit_class \<times> pyval"

text \<open>
  Exceptions.  \<open>TypeError\<close> carries its message template and, where the source formats
  a value into the message, that value.  \<open>ChannelError\<close> is whatever the channel's
  \<open>send\<close> or \<open>receive\<close> raises.
\<close>

datatype error =
    ValueError string
  | TypeError string "pyval option"
  | FileNotFoundError
  | ChannelError

section \<open>Builtins the wrapper relies on\<close>

definition startswith :: "string \<Rightarrow> string \<Rightarrow> bool" where
  "startswith s p = (take (length p) s = p)"

definition is_digit :: "char \<Rightarrow> bool" where
  "is_digit c = (48 \<le> (of_char c :: nat) \<and> (of_char c :: nat) \<le> 57)"

definition digit_val :: "char \<Rightarrow> nat" where
  "digit_val c = (of_char c :: nat) - 48"

text \<open>
  The code points below 256 that \<open>int()\<close> strips from both ends of a string: tab, line
  feed, vertical tab, form feed, carriage return and space, and of the code points from
  128 on the Unicode white space, next line (133) and no-break space (160).  The
  separators 28 to 31 are not stripped.
\<close>

definition is_space :: "char \<Rightarrow> bool" where
  "is_space c = ((of_char c :: nat) \<in> {9, 10, 11, 12, 13, 32, 133, 160})"

definition strip :: "string \<Rightarrow> string" where
  "strip s = rev (dropWhile is_space (rev (dropWhile is_space s)))"

text \<open>
  The digits of a base 10 literal: single underscores may stand between digits.  The flag
  says whether the previous character was a digit; the literal must end on one.
\<close>

fun digits_value :: "bool \<Rightarrow> nat \<Rightarrow> string \<Rightarrow> nat option" where
  "digits_value p acc [] = (if p then Some acc else None)"
| "digits_value p acc (c # cs) =
     (if is_digit c then digits_value True (10 * acc + digit_val c) cs
      else if c = CHR ''_'' \<and> p then digits_value False acc cs
      else None)"

definition int_max_str_digits :: nat where
  "int_max_str_digits = 4300"

text \<open>
  \<open>int(s)\<close> for a string: white space around the literal is dropped, one sign may lead,
  the digit run is validated, then its length is checked against the interpreter's limit
  on the digits of a converted string (4300 unless reconfigured), and what follows the
  run must be empty.
\<close>

definition py_int :: "string \<Rightarrow> error + int" where
  "py_int s =
     (let body = strip s;
          neg = (body \<noteq> [] \<and> hd body = CHR ''-'');
          signed = (body \<noteq> [] \<and> (hd body = CHR ''-'' \<or> hd body = CHR ''+''));
          lit = (if signed then tl body else body);
          run = takeWhile (\<lambda>c. is_digit c \<or> c = CHR ''_'') lit;
          rest = dropWhile (\<lambda>c. is_digit c \<or> c = CHR ''_'') lit
      in case digits_value False 0 run of
           None \<Rightarrow> Inl (ValueError ''invalid literal for int() with base 10'')
         | Some n \<Rightarrow>
             if int_max_str_digits < length (filter is_digit run)
             then Inl (ValueError ''Exceeds the limit for integer string conversion'')
             else if rest \<noteq> []
             then Inl (ValueError ''invalid literal for int() with base 10'')
             else Inr (if neg then - int n else int n))"

text \<open>\<open>str(n)\<close> for a non-negative integer, as object_to_id applies it to \<open>id(obj)\<close>.\<close>

function py_str_nat :: "nat \<Rightarrow> string" where
  "py_str_nat n =
     (if n < 10 then [char_of (48 + n)]
      else py_str_nat (n div 10) @ [char_of (48 + n mod 10)])"
  by pat_completeness auto
termination
  by (relation "measure id") auto

section \<open>cubit_wrapper_utility.py\<close>

definition object_to_id :: "nat \<Rightarrow> string \<Rightarrow> pyval" where
  "object_to_id ident display =
     PyList [PyStr (''cp2t3id_'' @ py_str_nat ident), PyStr display]"

text \<open>
  \<open>cubit_item_to_id\<close>: the four guards return \<open>None\<close>; behind them \<open>int\<close> converts
  what follows the eight characters of the prefix, and raises where that is no literal.
\<close>

definition cubit_item_to_id :: "pyval \<Rightarrow> error + int option" where
  "cubit_item_to_id cubit_data_list =
     (case cubit_data_list of
        PyList items \<Rightarrow>
          (case items of
             [] \<Rightarrow> Inr None
           | first # _ \<Rightarrow>
               (case first of
                  PyStr s \<Rightarrow>
                    if startswith s ''cp2t3id_''
                    then (case py_int (drop 8 s) of
                            Inl e \<Rightarrow> Inl e
                          | Inr n \<Rightarrow> Inr (Some n))
                    else Inr None
                | _ \<Rightarrow> Inr None))
      | _ \<Rightarrow> Inr None)"

definition is_base_type :: "pyval \<Rightarrow> bool" where
  "is_base_type obj =
     (case obj of
        PyStr _ \<Rightarrow> True
      | PyInt _ _ \<Rightarrow> True
      | PyBool _ \<Rightarrow> True
      | PyFloat _ _ \<Rightarrow> True
      | PyNone \<Rightarrow> True
      | _ \<Rightarrow> False)"

definition is_list :: "pyval \<Rightarrow> bool" where
  "is_list obj = (case obj of PyList _ \<Rightarrow> True | _ \<Rightarrow> False)"

definition is_str :: "pyval \<Rightarrow> bool" where
  "is_str obj = (case obj of PyStr _ \<Rightarrow> True | _ \<Rightarrow> False)"

text \<open>The number that a string of decimal digits denotes, by the place of each digit.\<close>

definition decimal :: "string \<Rightarrow> nat" where
  "decimal ds = (\<Sum>i<length ds. digit_val (ds ! i) * 10 ^ (length ds - 1 - i))"

section \<open>cubitpy_types.py\<close>

text \<open>
  \<open>GeometryType.get_cubit_string\<close>: the final \<open>else\<close> of the source raises ValueError
  for a value that is none of the four members; the enum has no such value.
\<close>

fun get_cubit_string :: "geometry \<Rightarrow> string" where
  "get_cubit_string vertex = ''vertex''"
| "get_cubit_string curve = ''curve''"
| "get_cubit_string surface = ''surface''"
| "get_cubit_string volume = ''volume''"

section \<open>Truth values\<close>

text \<open>
  What \<open>if x:\<close> tests.  A float is false when it is one of the two zeros.  An instance
  of CubitObject and an enum member define neither \<open>__bool__\<close> nor \<open>__len__\<close>.  A numpy
  array with more than one element has no truth value (ValueError); \<open>array_items\<close>
  lists the elements of an array of any dimension.
\<close>

fun truthy_scalar :: "pyval \<Rightarrow> bool" where
  "truthy_scalar PyNone = False"
| "truthy_scalar (PyBool b) = b"
| "truthy_scalar (PyInt _ i) = (i \<noteq> 0)"
| "truthy_scalar (PyFloat _ f) = (f \<noteq> 0 \<and> f \<noteq> 0x8000000000000000)"
| "truthy_scalar (PyNumpyInt i) = (i \<noteq> 0)"
| "truthy_scalar (PyNumpyFloat32 f) = (f \<noteq> 0 \<and> f \<noteq> 0x80000000)"
| "truthy_scalar (PyStr s) = (s \<noteq> [])"
| "truthy_scalar (PyList items) = (items \<noteq> [])"
| "truthy_scalar (PyTuple items) = (items \<noteq> [])"
| "truthy_scalar (PyDict items) = (items \<noteq> [])"
| "truthy_scalar _ = True"

fun array_items :: "pyval \<Rightarrow> pyval list" where
  "array_items (PyArray items) = concat (map array_items items)"
| "array_items item = [item]"

definition py_truthy :: "pyval \<Rightarrow> error + bool" where
  "py_truthy obj =
     (case obj of
        PyArray items \<Rightarrow>
          (case concat (map array_items items) of
             [] \<Rightarrow> Inr False
           | [item] \<Rightarrow> Inr (truthy_scalar item)
           | _ \<Rightarrow> Inl (ValueError ''The truth value of an array with more than one element is ambiguous''))
      | _ \<Rightarrow> Inr (truthy_scalar obj))"

section \<open>The world outside the wrapper\<close>

text \<open>
  The channel to the other interpreter, the temporary log file and standard output.
  \<open>sent\<close> lists the arguments of the calls of \<open>channel.send\<close>, oldest first.
  \<open>incoming\<close> scripts what the other side does at each exchange, in order: \<open>Inl e\<close> is
  an exchange that raises \<open>e\<close>, \<open>Inr (text, reply)\<close> is one where the toolkit appends
  \<open>text\<close> to the log file and \<open>channel.receive\<close> returns \<open>reply\<close>; an exhausted script
  is a channel that has gone away.  \<open>n_channels\<close> is
  \<open>len(self.gw._channelfactory.channels())\<close>.  \<open>log_file\<close> is the content of the file
  \<open>cupy.temp_log\<close>, \<open>None\<close> while the file does not exist.
\<close>

record world =
  sent :: "pyval list"
  incoming :: "(error + string \<times> pyval) list"
  n_channels :: nat
  log_file :: "string option"
  stdout :: string

definition channel_receive :: "world \<Rightarrow> (error + pyval) \<times> world" where
  "channel_receive w =
     (case incoming w of
        [] \<Rightarrow> (Inl ChannelError, w)
      | Inl e # rest \<Rightarrow> (Inl e, w\<lparr>incoming := rest\<rparr>)
      | Inr (text, reply) # rest \<Rightarrow>
          (Inr reply,
           w\<lparr>incoming := rest,
             log_file := (if text = [] then log_file w
                          else Some ((case log_file w of None \<Rightarrow> [] | Some old \<Rightarrow> old) @ text))\<rparr>))"

section \<open>cubit_wrapper3.py\<close>

record CubitConnect =
  log_check :: bool
  cubit :: cubit_object

definition send_and_return :: "world \<Rightarrow> pyval \<Rightarrow> bool \<Rightarrow> (error + pyval) \<times> world" where
  "send_and_return w argument_list check_number_of_channels =
     (if check_number_of_channels \<and> n_channels w = 0 then (Inr PyNone, w)
      else channel_receive (w\<lparr>sent := sent w @ [argument_list]\<rparr>))"

text \<open>\<open>CubitObject.__init__\<close>, for either class; the result is the new instance.\<close>

definition CubitObject_init :: "cubit_class \<Rightarrow> pyval \<Rightarrow> error + pyval" where
  "CubitObject_init cls cubit_data_list =
     (case cubit_item_to_id cubit_data_list of
        Inl e \<Rightarrow> Inl e
      | Inr None \<Rightarrow> Inl (TypeError ''Wrong type {}'' (Some cubit_data_list))
      | Inr (Some _) \<Rightarrow> Inr (PyObject cls cubit_data_list))"

text \<open>
  \<open>serialize_item\<close>, nested in \<open>get_attribute\<close>: the branches in the source's order.
  The last equation is the final \<open>else\<close>: it is reached by \<open>None\<close>, a string, a dict
  and the numpy scalars that are instances of neither float nor int.
\<close>

fun serialize_item :: "pyval \<Rightarrow> pyval" where
  "serialize_item (PyTuple items) = PyList (map serialize_item items)"
| "serialize_item (PyList items) = PyList (map serialize_item items)"
| "serialize_item (PyArray items) = PyList (map serialize_item items)"
| "serialize_item (PyObject cls cubit_id) = cubit_id"
| "serialize_item (PyFloat k f) = PyFloat Exact f"
| "serialize_item (PyInt k i) = PyInt Exact i"
| "serialize_item (PyBool b) = PyInt Exact (if b then 1 else 0)"
| "serialize_item (PyGeometry g) = PyStr (get_cubit_string g)"
| "serialize_item item = item"

text \<open>
  The end of \<open>function\<close> (lines 204 to 228): what becomes of the value the channel
  returned.  \<open>decode_items\<close> is the loop over a returned list.
\<close>

fun decode_items :: "pyval list \<Rightarrow> error + pyval list" where
  "decode_items [] = Inr []"
| "decode_items (item # items) =
     (case cubit_item_to_id item of
        Inl e \<Rightarrow> Inl e
      | Inr (Some _) \<Rightarrow>
          (case CubitObject_init CubitObject item of
             Inl e \<Rightarrow> Inl e
           | Inr obj \<Rightarrow>
               (case decode_items items of
                  Inl e \<Rightarrow> Inl e
                | Inr return_list \<Rightarrow> Inr (obj # return_list)))
      | Inr None \<Rightarrow>
          if is_base_type item
          then (case decode_items items of
                  Inl e \<Rightarrow> Inl e
                | Inr return_list \<Rightarrow> Inr (item # return_list))
          else Inl (TypeError ''Expected cubit object, or base_type, got {}!'' (Some item)))"

definition decode_return :: "pyval \<Rightarrow> error + pyval" where
  "decode_return cubit_return =
     (case cubit_item_to_id cubit_return of
        Inl e \<Rightarrow> Inl e
      | Inr (Some _) \<Rightarrow> CubitObject_init CubitObject cubit_return
      | Inr None \<Rightarrow>
          (case cubit_return of
             PyList items \<Rightarrow>
               (case decode_items items of
                  Inl e \<Rightarrow> Inl e
                | Inr return_list \<Rightarrow> Inr (PyList return_list))
           | _ \<Rightarrow>
               if is_base_type cubit_return then Inr cubit_return
               else Inl (TypeError ''Expected cubit object, or base_type, got {}!''
                           (Some cubit_return))))"

text \<open>The two log steps of \<open>function\<close>: emptying the file before the call, printing it after.\<close>

definition empty_log :: "world \<Rightarrow> (error + unit) \<times> world" where
  "empty_log w =
     (case log_file w of
        None \<Rightarrow> (Inl FileNotFoundError, w)
      | Some content \<Rightarrow> (Inr (), if content \<noteq> [] then w\<lparr>log_file := Some []\<rparr> else w))"

definition print_log :: "world \<Rightarrow> (error + unit) \<times> world" where
  "print_log w =
     (case log_file w of
        None \<Rightarrow> (Inl FileNotFoundError, w)
      | Some content \<Rightarrow> (Inr (), w\<lparr>stdout := stdout w @ content\<rparr>))"

text \<open>\<open>function(*args)\<close>, the closure of \<open>get_attribute\<close> over \<open>cubit_object\<close> and \<open>name\<close>.\<close>

definition get_attribute_function ::
  "CubitConnect \<Rightarrow> world \<Rightarrow> cubit_object \<Rightarrow> string \<Rightarrow> pyval list \<Rightarrow> (error + pyval) \<times> world" where
  "get_attribute_function self w cubit_object name args =
     (case (if log_check self then empty_log w else (Inr (), w)) of
        (Inl e, w1) \<Rightarrow> (Inl e, w1)
      | (Inr _, w1) \<Rightarrow>
          (let arguments = serialize_item (PyTuple args) in
           case send_and_return w1 (PyList [snd cubit_object, PyStr name, arguments]) False of
             (Inl e, w2) \<Rightarrow> (Inl e, w2)
           | (Inr cubit_return, w2) \<Rightarrow>
               (case (if log_check self then print_log w2 else (Inr (), w2)) of
                  (Inl e, w3) \<Rightarrow> (Inl e, w3)
                | (Inr _, w3) \<Rightarrow> (decode_return cubit_return, w3))))"

text \<open>
  What resolving an attribute gives: the closure \<open>function\<close> (not yet called), the value
  a call of it returned, or an attribute found in python3 on the object itself.
\<close>

datatype attribute = Function cubit_object string | Value pyval | Python3 string

definition get_attribute ::
  "CubitConnect \<Rightarrow> world \<Rightarrow> cubit_object \<Rightarrow> string \<Rightarrow> (error + attribute) \<times> world" where
  "get_attribute self w cubit_object name =
     (case send_and_return w (PyList [PyStr ''iscallable'', snd cubit_object, PyStr name]) False of
        (Inl e, w1) \<Rightarrow> (Inl e, w1)
      | (Inr reply, w1) \<Rightarrow>
          (case py_truthy reply of
             Inl e \<Rightarrow> (Inl e, w1)
           | Inr True \<Rightarrow> (Inr (Function cubit_object name), w1)
           | Inr False \<Rightarrow>
               (case get_attribute_function self w1 cubit_object name [] of
                  (Inl e, w2) \<Rightarrow> (Inl e, w2)
                | (Inr v, w2) \<Rightarrow> (Inr (Value v), w2))))"

text \<open>
  The names \<open>object.__getattribute__\<close> finds because the class or its \<open>__init__\<close> defines
  them.  What it finds beyond them is inherited from \<open>object\<close> and depends on the
  interpreter: the parameter \<open>inherited\<close>.
\<close>

definition python3_attributes :: "string list" where
  "python3_attributes =
     [''cubit_connect'', ''cubit_id'', ''__init__'', ''__getattribute__'', ''__del__'',
      ''__str__'', ''isinstance'', ''get_self_dir'', ''get_methods'', ''get_attributes'',
      ''get_geometry_type'', ''get_node_ids'']"

definition CubitObject_getattribute ::
  "(string \<Rightarrow> bool) \<Rightarrow> CubitConnect \<Rightarrow> world \<Rightarrow> cubit_object \<Rightarrow> string
     \<Rightarrow> (error + attribute) \<times> world" where
  "CubitObject_getattribute inherited self w obj name =
     (if name \<in> set python3_attributes \<or> inherited name then (Inr (Python3 name), w)
      else get_attribute self w obj name)"

text \<open>
  \<open>CubitConnect.__init__\<close>.  The gateway, the channel and the remote code are set up
  by execnet (lines 80 to 89): \<open>w\<close> is the world with the channel just opened.
  \<open>module_file\<close> is the module's \<open>__file__\<close> and \<open>temp_log\<close> the path \<open>cupy.temp_log\<close>, both
  defined outside the wrapper.  \<open>cubit_arguments.extend\<close> changes the caller's list; the
  extended list is what the init message carries.
\<close>

definition log_given :: "string list \<Rightarrow> bool" where
  "log_given cubit_arguments = list_ex (\<lambda>arg. startswith arg ''-log='') cubit_arguments"

definition CubitConnect_init ::
  "string \<Rightarrow> string \<Rightarrow> world \<Rightarrow> string list \<Rightarrow> string option
     \<Rightarrow> (error + CubitConnect) \<times> world" where
  "CubitConnect_init module_file temp_log w cubit_arguments cubit_bin_path =
     (case cubit_bin_path of
        None \<Rightarrow> (Inl (ValueError ''Path to cubit was not given!''), w)
      | Some path \<Rightarrow>
          (let parameters = [(PyStr ''__file__'', PyStr module_file),
                             (PyStr ''cubit_bin_path'', PyStr path)];
               check = (\<not> log_given cubit_arguments);
               arguments = (if check then cubit_arguments @ [''-log'', temp_log]
                            else cubit_arguments);
               parameters = (if check then parameters @ [(PyStr ''tty'', PyStr temp_log)]
                             else parameters)
           in case send_and_return w (PyDict parameters) False of
                (Inl e, w1) \<Rightarrow> (Inl e, w1)
              | (Inr _, w1) \<Rightarrow>
                  (case send_and_return w1 (PyList [PyStr ''init'', PyList (map PyStr arguments)])
                          False of
                     (Inl e, w2) \<Rightarrow> (Inl e, w2)
                   | (Inr cubit_id, w2) \<Rightarrow>
                       (case CubitObject_init CubitObjectMain cubit_id of
                          Inl e \<Rightarrow> (Inl e, w2)
                        | Inr _ \<Rightarrow>
                            (Inr \<lparr>log_check = check, cubit = (CubitObjectMain, cubit_id)\<rparr>,
                             w2)))))"

text \<open>
  \<open>__del__\<close>, of CubitObject and as CubitObjectMain overrides it.  Neither has a
  \<open>return\<close>: what \<open>send_and_return\<close> gives back is dropped and the result is \<open>None\<close>.
\<close>

definition CubitObject_del :: "world \<Rightarrow> cubit_object \<Rightarrow> (error + pyval) \<times> world" where
  "CubitObject_del w obj =
     (case fst obj of
        CubitObjectMain \<Rightarrow> (Inr PyNone, w)
      | CubitObject \<Rightarrow>
          (case send_and_return w (PyList [PyStr ''delete'', snd obj]) True of
             (Inl e, w1) \<Rightarrow> (Inl e, w1)
           | (Inr _, w1) \<Rightarrow> (Inr PyNone, w1)))"

definition CubitObject_isinstance ::
  "world \<Rightarrow> cubit_object \<Rightarrow> string \<Rightarrow> (error + pyval) \<times> world" where
  "CubitObject_isinstance w obj geom_type =
     send_and_return w (PyList [PyStr ''isinstance'', snd obj, PyStr geom_type]) False"

text \<open>One \<open>if self.isinstance(...)\<close>: the query, then the truth value of the reply.\<close>

definition isinstance_test :: "world \<Rightarrow> cubit_object \<Rightarrow> string \<Rightarrow> (error + bool) \<times> world" where
  "isinstance_test w obj geom_type =
     (case CubitObject_isinstance w obj geom_type of
        (Inl e, w1) \<Rightarrow> (Inl e, w1)
      | (Inr reply, w1) \<Rightarrow> (py_truthy reply, w1))"

definition get_geometry_type :: "world \<Rightarrow> cubit_object \<Rightarrow> (error + geometry) \<times> world" where
  "get_geometry_type w obj =
     (case isinstance_test w obj ''cubitpy_vertex'' of
        (Inl e, w1) \<Rightarrow> (Inl e, w1)
      | (Inr True, w1) \<Rightarrow> (Inr vertex, w1)
      | (Inr False, w1) \<Rightarrow>
     (case isinstance_test w1 obj ''cubitpy_curve'' of
        (Inl e, w2) \<Rightarrow> (Inl e, w2)
      | (Inr True, w2) \<Rightarrow> (Inr curve, w2)
      | (Inr False, w2) \<Rightarrow>
     (case isinstance_test w2 obj ''cubitpy_surface'' of
        (Inl e, w3) \<Rightarrow> (Inl e, w3)
      | (Inr True, w3) \<Rightarrow> (Inr surface, w3)
      | (Inr False, w3) \<Rightarrow>
     (case isinstance_test w3 obj ''cubitpy_volume'' of
        (Inl e, w4) \<Rightarrow> (Inl e, w4)
      | (Inr True, w4) \<Rightarrow> (Inr volume, w4)
      | (Inr False, w4) \<Rightarrow>
          (Inl (TypeError ''The item is not a valid geometry!'' None), w4)))))"

section \<open>utils.py\<close>

text \<open>
  \<open>get_geometry_type(item)\<close>.  CubitGroup lives in cubit_group.py: its method is the
  parameter \<open>group_get_geometry_type\<close>.
\<close>

datatype 'g item = Group 'g | Item cubit_object

definition utils_get_geometry_type ::
  "('g \<Rightarrow> world \<Rightarrow> (error + geometry) \<times> world) \<Rightarrow> world \<Rightarrow> 'g item
     \<Rightarrow> (error + geometry) \<times> world" where
  "utils_get_geometry_type group_get_geometry_type w it =
     (case it of
        Group g \<Rightarrow> group_get_geometry_type g w
      | Item obj \<Rightarrow>
     (case isinstance_test w obj ''cubitpy_vertex'' of
        (Inl e, w1) \<Rightarrow> (Inl e, w1)
      | (Inr True, w1) \<Rightarrow> (Inr vertex, w1)
      | (Inr False, w1) \<Rightarrow>
     (case isinstance_test w1 obj ''cubitpy_curve'' of
        (Inl e, w2) \<Rightarrow> (Inl e, w2)
      | (Inr True, w2) \<Rightarrow> (Inr curve, w2)
      | (Inr False, w2) \<Rightarrow>
     (case isinstance_test w2 obj ''cubitpy_surface'' of
        (Inl e, w3) \<Rightarrow> (Inl e, w3)
      | (Inr True, w3) \<Rightarrow> (Inr surface, w3)
      | (Inr False, w3) \<Rightarrow>
     (case isinstance_test w3 obj ''cubitpy_volume'' of
        (Inl e, w4) \<Rightarrow> (Inl e, w4)
      | (Inr True, w4) \<Rightarrow> (Inr volume, w4)
      | (Inr False, w4) \<Rightarrow>
          (Inl (TypeError ''The item is not a valid geometry!'' None), w4))))))"

section \<open>The life of an instance\<close>

text \<open>
  The interpreter calls \<open>__del__\<close> when it reclaims an instance and reports an exception
  raised there without propagating it.  \<open>objects\<close> maps the
  identity of each instance that is alive to its class and \<open>cubit_id\<close>; \<open>release\<close>
  reclaims one instance, \<open>release_all\<close> several in the given order.
\<close>

record interpreter =
  outside :: world
  objects :: "nat \<Rightarrow> cubit_object option"

definition release :: "interpreter \<Rightarrow> nat \<Rightarrow> error option \<times> interpreter" where
  "release s i =
     (case objects s i of
        None \<Rightarrow> (None, s)
      | Some obj \<Rightarrow>
          (case CubitObject_del (outside s) obj of
             (r, w) \<Rightarrow>
               ((case r of Inl e \<Rightarrow> Some e | Inr _ \<Rightarrow> None),
                \<lparr>outside = w, objects = (objects s)(i := None)\<rparr>)))"

fun release_all :: "interpreter \<Rightarrow> nat list \<Rightarrow> error list \<times> interpreter" where
  "release_all s [] = ([], s)"
| "release_all s (i # rest) =
     (case release s i of
        (r, s1) \<Rightarrow>
          (case release_all s1 rest of
             (es, s2) \<Rightarrow> ((case r of None \<Rightarrow> [] | Some e \<Rightarrow> [e]) @ es, s2)))"

section \<open>Shape of an argument\<close>

text \<open>
  The items of a sequence that \<open>serialize_item\<close> walks through, and the nesting depth of
  a value, an instance of CubitObject counting as the \<open>cubit_id\<close> that stands for it on
  the wire.
\<close>

fun seq_items :: "pyval \<Rightarrow> pyval list option" where
  "seq_items (PyList items) = Some items"
| "seq_items (PyTuple items) = Some items"
| "seq_items (PyArray items) = Some items"
| "seq_items _ = None"

fun depth :: "pyval \<Rightarrow> nat" where
  "depth (PyList items) = Suc (foldr max (map depth items) 0)"
| "depth (PyTuple items) = Suc (foldr max (map depth items) 0)"
| "depth (PyArray items) = Suc (foldr max (map depth items) 0)"
| "depth (PyObject cls cubit_id) = depth cubit_id"
| "depth _ = 0"

section \<open>Kinds of reply\<close>

text \<open>
  A value is a handle when \<open>cubit_item_to_id\<close> returns an integer for it.  A decoded
  value holds handles when every instance of CubitObject in it, at the top or as an
  element of a returned list, has a \<open>cubit_id\<close> that is a handle.  A reply is cleanly
  classified when \<open>cubit_item_to_id\<close> raises neither for it nor, if it is a list, for
  any of its elements.
\<close>

definition is_handle :: "pyval \<Rightarrow> bool" where
  "is_handle v = (case cubit_item_to_id v of Inr (Some _) \<Rightarrow> True | _ \<Rightarrow> False)"

fun holds_handles :: "pyval \<Rightarrow> bool" where
  "holds_handles (PyObject cls cubit_id) = is_handle cubit_id"
| "holds_handles (PyList items) = list_all holds_handles items"
| "holds_handles _ = True"

definition acceptable :: "pyval \<Rightarrow> bool" where
  "acceptable item = (is_handle item \<or> is_base_type item)"

definition decoded_item :: "pyval \<Rightarrow> pyval" where
  "decoded_item item = (if is_handle item then PyObject CubitObject item else item)"

definition cleanly_classified :: "pyval \<Rightarrow> bool" where
  "cleanly_classified r =
     (\<not> isl (cubit_item_to_id r) \<and>
      (case r of
         PyList items \<Rightarrow> list_all (\<lambda>item. \<not> isl (cubit_item_to_id item)) items
       | _ \<Rightarrow> True))"

section \<open>Decimal literals\<close>

lemma decimal_Nil: "decimal [] = 0"
  by (simp add: decimal_def)

lemma decimal_Cons: "decimal (c # cs) = digit_val c * 10 ^ length cs + decimal cs"
  unfolding decimal_def length_Cons sum.lessThan_Suc_shift by simp

lemma decimal_snoc: "decimal (ds @ [c]) = 10 * decimal ds + digit_val c"
proof -
  have "(\<Sum>i<length ds. digit_val ((ds @ [c]) ! i) * 10 ^ (length ds - i))
      = (\<Sum>i<length ds. 10 * (digit_val (ds ! i) * 10 ^ (length ds - 1 - i)))"
  proof (rule sum.cong)
    fix i assume "i \<in> {..<length ds}"
    then have i: "i < length ds" by simp
    then have "length ds - i = Suc (length ds - 1 - i)" by arith
    then show "digit_val ((ds @ [c]) ! i) * 10 ^ (length ds - i)
        = 10 * (digit_val (ds ! i) * 10 ^ (length ds - 1 - i))"
      using i by (simp add: nth_append)
  qed simp
  then show ?thesis
    by (simp add: decimal_def sum_distrib_left)
qed

lemma digits_value_digits:
  "list_all is_digit ds \<Longrightarrow> ds \<noteq> [] \<or> p \<Longrightarrow>
   digits_value p acc ds = Some (acc * 10 ^ length ds + decimal ds)"
proof (induction ds arbitrary: p acc)
  case Nil
  then show ?case by (simp add: decimal_Nil)
next
  case (Cons c cs)
  then show ?case by (simp add: decimal_Cons algebra_simps)
qed

lemma digit_not_space: "is_digit c \<Longrightarrow> \<not> is_space c"
  by (auto simp: is_digit_def is_space_def)

lemma strip_digits: "list_all is_digit ds \<Longrightarrow> strip ds = ds"
proof (cases ds rule: rev_cases)
  case Nil
  then show ?thesis by (simp add: strip_def)
next
  case (snoc ys y)
  assume a: "list_all is_digit ds"
  then have y: "\<not> is_space y" using snoc by (simp add: digit_not_space)
  have "dropWhile is_space ds = ds" using a by (cases ds) (auto simp: digit_not_space)
  then show ?thesis using snoc y by (simp add: strip_def)
qed

lemma py_int_digits:
  assumes "ds \<noteq> []" "list_all is_digit ds" "length ds \<le> int_max_str_digits"
  shows "py_int ds = Inr (int (decimal ds))"
proof -
  obtain c cs where ds: "ds = c # cs" using assms(1) by (cases ds) auto
  have c: "is_digit c" using assms(2) ds by simp
  have nsign: "c \<noteq> CHR ''-''" "c \<noteq> CHR ''+''" using c by (auto simp: is_digit_def)
  have tw: "takeWhile (\<lambda>c. is_digit c \<or> c = CHR ''_'') ds = ds"
    using assms(2) by (simp add: list_all_iff)
  have dw: "dropWhile (\<lambda>c. is_digit c \<or> c = CHR ''_'') ds = []"
    using assms(2) by (simp add: list_all_iff)
  have f: "filter is_digit ds = ds" using assms(2) by (simp add: list_all_iff)
  have dv: "digits_value False 0 ds = Some (decimal ds)"
    using digits_value_digits[OF assms(2), of False 0] assms(1) by simp
  show ?thesis
    unfolding py_int_def Let_def strip_digits[OF assms(2)]
    using nsign tw dw f dv assms(3) ds by simp
qed

lemma digit_char:
  "d < 10 \<Longrightarrow> is_digit (char_of (48 + d)) \<and> digit_val (char_of (48 + d)) = d"
  by (simp add: is_digit_def digit_val_def)

lemma py_str_nat_digits: "list_all is_digit (py_str_nat n) \<and> py_str_nat n \<noteq> []"
proof (induction n rule: py_str_nat.induct)
  case (1 n)
  show ?case
  proof (cases "n < 10")
    case True
    then show ?thesis using digit_char[of n] by (subst (1 2) py_str_nat.simps) simp
  next
    case False
    then show ?thesis using 1 digit_char[of "n mod 10"]
      by (subst (1 2) py_str_nat.simps) simp
  qed
qed

lemma decimal_py_str_nat: "decimal (py_str_nat n) = n"
proof (induction n rule: py_str_nat.induct)
  case (1 n)
  show ?case
  proof (cases "n < 10")
    case True
    then show ?thesis using digit_char[of n]
      by (subst py_str_nat.simps) (simp add: decimal_Cons decimal_Nil)
  next
    case False
    then show ?thesis using 1 digit_char[of "n mod 10"]
      by (subst py_str_nat.simps) (simp add: decimal_snoc)
  qed
qed

lemma length_py_str_nat: "0 < k \<Longrightarrow> n < 10 ^ k \<Longrightarrow> length (py_str_nat n) \<le> k"
proof (induction n arbitrary: k rule: py_str_nat.induct)
  case (1 n)
  show ?case
  proof (cases "n < 10")
    case True
    then show ?thesis using 1(2) by (subst py_str_nat.simps) simp
  next
    case False
    obtain j where k: "k = Suc j" using 1(2) by (cases k) auto
    have "j \<noteq> 0" using False 1(3) k by (cases j) auto
    moreover have "n div 10 < 10 ^ j" using 1(3) k by (simp add: less_mult_imp_div_less)
    ultimately have "length (py_str_nat (n div 10)) \<le> j" using 1(1)[OF False, of j] by simp
    then show ?thesis using False k by (subst py_str_nat.simps) simp
  qed
qed

lemma length_py_str_nat_64: "n < 2 ^ 64 \<Longrightarrow> length (py_str_nat n) \<le> int_max_str_digits"
proof -
  assume "n < 2 ^ 64"
  then have "n < 10 ^ 20" by simp
  then have "length (py_str_nat n) \<le> 20" by (intro length_py_str_nat) simp_all
  then show ?thesis by (simp add: int_max_str_digits_def)
qed

section \<open>Classifying a handle\<close>

lemma cubit_item_to_id_prefixed:
  "cubit_item_to_id (PyList (PyStr (''cp2t3id_'' @ s) # rest)) =
     (case py_int s of Inl e \<Rightarrow> Inl e | Inr n \<Rightarrow> Inr (Some n))"
  by (simp add: cubit_item_to_id_def startswith_def)

lemma cubit_item_to_id_digits:
  "ds \<noteq> [] \<Longrightarrow> list_all is_digit ds \<Longrightarrow> length ds \<le> int_max_str_digits \<Longrightarrow>
   cubit_item_to_id (PyList (PyStr (''cp2t3id_'' @ ds) # rest)) = Inr (Some (int (decimal ds)))"
  by (subst cubit_item_to_id_prefixed) (simp add: py_int_digits)

lemma cubit_item_to_id_object_to_id:
  "ident < 2 ^ 64 \<Longrightarrow> cubit_item_to_id (object_to_id ident display) = Inr (Some (int ident))"
proof -
  assume a: "ident < 2 ^ 64"
  have "cubit_item_to_id (PyList (PyStr (''cp2t3id_'' @ py_str_nat ident) # [PyStr display]))
          = Inr (Some (int (decimal (py_str_nat ident))))"
    using py_str_nat_digits[of ident] length_py_str_nat_64[OF a]
    by (intro cubit_item_to_id_digits) simp_all
  then show ?thesis
    unfolding object_to_id_def decimal_py_str_nat .
qed

lemma startswith_split: "startswith s p \<Longrightarrow> s = p @ drop (length p) s"
  unfolding startswith_def by (metis append_take_drop_id)

lemma cubit_item_to_id_Inl:
  assumes "cubit_item_to_id v = Inl e"
  shows "\<exists>s rest. v = PyList (PyStr (''cp2t3id_'' @ s) # rest) \<and> py_int s = Inl e"
proof -
  from assms obtain s rest where v: "v = PyList (PyStr s # rest)"
    and p: "startswith s ''cp2t3id_''" and i: "py_int (drop 8 s) = Inl e"
    by (auto simp: cubit_item_to_id_def
        split: pyval.splits list.splits if_splits sum.splits)
  from startswith_split[OF p] have "s = ''cp2t3id_'' @ drop 8 s"
    by (simp add: eval_nat_numeral)
  with v i show ?thesis by blast
qed


text \<open>
  What \<open>cubit_item_to_id\<close> does case by case: \<open>None\<close> for a value that is not a list,
  for the empty list, for a list whose first element is not a string and for one whose
  first element does not begin with \<open>cp2t3id_\<close>; the number that decimal digits after
  the prefix denote, so \<open>id(obj)\<close> for what \<open>object_to_id\<close> makes of an object; and for
  any text after the prefix what \<open>int\<close> makes of it, its error included.
\<close>

lemma cubit_item_to_id_cases:
  "(\<not> is_list v \<longrightarrow> cubit_item_to_id v = Inr None) \<and>
   cubit_item_to_id (PyList []) = Inr None \<and>
   (\<not> is_str first \<longrightarrow> cubit_item_to_id (PyList (first # rest)) = Inr None) \<and>
   (\<not> startswith s ''cp2t3id_'' \<longrightarrow> cubit_item_to_id (PyList (PyStr s # rest)) = Inr None) \<and>
   (ds \<noteq> [] \<and> list_all is_digit ds \<and> length ds \<le> int_max_str_digits \<longrightarrow>
      cubit_item_to_id (PyList (PyStr (''cp2t3id_'' @ ds) # rest))
        = Inr (Some (int (decimal ds)))) \<and>
   cubit_item_to_id (PyList [PyStr ''cp2t3id_42'', PyStr ''<Vertex>'']) = Inr (Some 42) \<and>
   (ident < 2 ^ 64 \<longrightarrow>
      cubit_item_to_id (object_to_id ident display) = Inr (Some (int ident))) \<and>
   cubit_item_to_id (PyList (PyStr (''cp2t3id_'' @ t) # rest))
     = (case py_int t of Inl e \<Rightarrow> Inl e | Inr n \<Rightarrow> Inr (Some n)) \<and>
   (cubit_item_to_id v = Inl e \<longrightarrow>
      (\<exists>t rest'. v = PyList (PyStr (''cp2t3id_'' @ t) # rest') \<and> py_int t = Inl e))"
proof -
  have a: "\<not> is_list v \<longrightarrow> cubit_item_to_id v = Inr None"
    by (cases v) (simp_all add: cubit_item_to_id_def is_list_def)
  have b: "cubit_item_to_id (PyList []) = Inr None"
    by (simp add: cubit_item_to_id_def)
  have c: "\<not> is_str first \<longrightarrow> cubit_item_to_id (PyList (first # rest)) = Inr None"
    by (cases first) (simp_all add: cubit_item_to_id_def is_str_def)
  have d: "\<not> startswith s ''cp2t3id_'' \<longrightarrow> cubit_item_to_id (PyList (PyStr s # rest)) = Inr None"
    by (simp add: cubit_item_to_id_def)
  have f: "cubit_item_to_id (PyList [PyStr ''cp2t3id_42'', PyStr ''<Vertex>'']) = Inr (Some 42)"
    by code_simp
  have g: "ds \<noteq> [] \<and> list_all is_digit ds \<and> length ds \<le> int_max_str_digits \<longrightarrow>
      cubit_item_to_id (PyList (PyStr (''cp2t3id_'' @ ds) # rest))
        = Inr (Some (int (decimal ds)))"
    using cubit_item_to_id_digits[of ds rest] by blast
  have h: "ident < 2 ^ 64 \<longrightarrow>
      cubit_item_to_id (object_to_id ident display) = Inr (Some (int ident))"
    using cubit_item_to_id_object_to_id[of ident display] by blast
  have i: "cubit_item_to_id v = Inl e \<longrightarrow>
      (\<exists>t rest'. v = PyList (PyStr (''cp2t3id_'' @ t) # rest') \<and> py_int t = Inl e)"
    using cubit_item_to_id_Inl[of v e] by blast
  from a b c d g f h cubit_item_to_id_prefixed[of t rest] i show ?thesis by (intro conjI)
qed

text \<open>
  C2.  The classification is not total: the list \<open>["cp2t3id_"]\<close> passes the four guards
  that return \<open>None\<close>, nothing follows the prefix, and the unguarded \<open>int("")\<close> raises
  ValueError where the claim has \<open>None\<close>.  The well-formed handle
  \<open>["cp2t3id_42", "<Vertex>"]\<close> is classified as 42.
\<close>

theorem cubit_item_to_id_raises:
  "cubit_item_to_id (PyList [PyStr ''cp2t3id_''])
     = Inl (ValueError ''invalid literal for int() with base 10'') \<and>
   cubit_item_to_id (PyList [PyStr ''cp2t3id_42'', PyStr ''<Vertex>'']) = Inr (Some 42)"
  by code_simp

section \<open>Encoding arguments, decoding replies\<close>

lemma depth_items:
  "(\<And>x. x \<in> set items \<Longrightarrow> depth (serialize_item x) = depth x) \<Longrightarrow>
   foldr max (map (depth \<circ> serialize_item) items) 0 = foldr max (map depth items) 0"
  by (induction items) simp_all

lemma depth_serialize_item: "depth (serialize_item item) = depth item"
proof (induction item rule: serialize_item.induct)
  case (1 items)
  from depth_items[OF 1] show ?case by simp
next
  case (2 items)
  from depth_items[OF 2] show ?case by simp
next
  case (3 items)
  from depth_items[OF 3] show ?case by simp
qed simp_all

text \<open>
  C6, as the code has it.  A list, a tuple and an array are encoded as the list of their
  encoded items, in the same order, and the nesting depth is kept; an instance of
  CubitObject becomes its \<open>cubit_id\<close>; an instance of float or of int, of any subclass
  (bool and numpy.float64 among them), becomes the plain float or int of the same value;
  a geometry type becomes its cubit string; everything else passes through unchanged:
  \<open>None\<close>, a string, a dict, and also a number that is an instance of neither float nor
  int, such as a numpy.int64 or a numpy.float32.
\<close>

theorem serialize_item_encoding:
  "(seq_items item = Some items \<longrightarrow> serialize_item item = PyList (map serialize_item items)) \<and>
   depth (serialize_item item) = depth item \<and>
   serialize_item (PyObject cls cubit_id) = cubit_id \<and>
   serialize_item (PyFloat k f) = PyFloat Exact f \<and>
   serialize_item (PyInt k i) = PyInt Exact i \<and>
   serialize_item (PyBool b) = PyInt Exact (if b then 1 else 0) \<and>
   serialize_item (PyGeometry vertex) = PyStr ''vertex'' \<and>
   serialize_item (PyGeometry curve) = PyStr ''curve'' \<and>
   serialize_item (PyGeometry surface) = PyStr ''surface'' \<and>
   serialize_item (PyGeometry volume) = PyStr ''volume'' \<and>
   serialize_item PyNone = PyNone \<and>
   serialize_item (PyStr s) = PyStr s \<and>
   serialize_item (PyDict d) = PyDict d \<and>
   serialize_item (PyNumpyInt n) = PyNumpyInt n \<and>
   serialize_item (PyNumpyFloat32 g) = PyNumpyFloat32 g"
proof -
  have "seq_items item = Some items \<longrightarrow> serialize_item item = PyList (map serialize_item items)"
    by (cases item) simp_all
  then show ?thesis by (simp add: depth_serialize_item)
qed

text \<open>
  C6 as stated fails: the items of an integer array are numpy integers, no instances of
  int, and they are passed through as they are; so is a numpy.float32.
\<close>

theorem serialize_item_keeps_numpy_scalars:
  "serialize_item (PyTuple [PyArray [PyNumpyInt 1, PyNumpyInt 2]])
     = PyList [PyList [PyNumpyInt 1, PyNumpyInt 2]] \<and>
   serialize_item (PyNumpyFloat32 0x3FC00000) = PyNumpyFloat32 0x3FC00000"
  by simp

text \<open>C6: a nested argument tuple mixing numbers, an object, an array and a geometry type.\<close>

theorem serialize_item_encoding_witness:
  "serialize_item
     (PyTuple [PyInt Subclass 3,
               PyList [PyObject CubitObject (PyList [PyStr ''cp2t3id_7'', PyStr ''<Curve>'']),
                       PyArray [PyFloat Subclass 5, PyFloat Subclass 6]],
               PyGeometry surface, PyBool True, PyStr ''x''])
   = PyList [PyInt Exact 3,
             PyList [PyList [PyStr ''cp2t3id_7'', PyStr ''<Curve>''],
                     PyList [PyFloat Exact 5, PyFloat Exact 6]],
             PyStr ''surface'', PyInt Exact 1, PyStr ''x'']"
  using serialize_item_encoding
    [where item = "PyTuple [PyInt Subclass 3,
               PyList [PyObject CubitObject (PyList [PyStr ''cp2t3id_7'', PyStr ''<Curve>'']),
                       PyArray [PyFloat Subclass 5, PyFloat Subclass 6]],
               PyGeometry surface, PyBool True, PyStr ''x'']"
       and items = "[PyInt Subclass 3,
               PyList [PyObject CubitObject (PyList [PyStr ''cp2t3id_7'', PyStr ''<Curve>'']),
                       PyArray [PyFloat Subclass 5, PyFloat Subclass 6]],
               PyGeometry surface, PyBool True, PyStr ''x'']"]
  by simp




section \<open>Instances hold handles\<close>

lemma CubitObject_init_Inr:
  "CubitObject_init cls d = Inr obj \<Longrightarrow> obj = PyObject cls d \<and> is_handle d"
  by (auto simp: CubitObject_init_def is_handle_def split: sum.splits option.splits)

lemma CubitObject_init_handle:
  "is_handle d \<Longrightarrow> CubitObject_init cls d = Inr (PyObject cls d)"
  by (auto simp: CubitObject_init_def is_handle_def split: sum.splits option.splits)

lemma base_type_holds_handles: "is_base_type v \<Longrightarrow> holds_handles v"
  by (cases v) (simp_all add: is_base_type_def)

lemma decode_items_holds_handles:
  "decode_items items = Inr vs \<Longrightarrow> list_all holds_handles vs"
proof (induction items arbitrary: vs)
  case Nil
  then show ?case by simp
next
  case (Cons item items)
  show ?case
  proof (cases "cubit_item_to_id item")
    case (Inl e)
    with Cons.prems show ?thesis by simp
  next
    case (Inr n)
    show ?thesis
    proof (cases n)
      case None
      with Inr Cons.prems obtain rl where rl: "decode_items items = Inr rl"
        and vs: "vs = item # rl" and b: "is_base_type item"
        by (auto split: if_splits sum.splits)
      from Cons.IH[OF rl] b vs show ?thesis by (simp add: base_type_holds_handles)
    next
      case (Some k)
      with Inr have h: "is_handle item" by (simp add: is_handle_def)
      from Inr Some Cons.prems obtain rl where rl: "decode_items items = Inr rl"
        and vs: "vs = PyObject CubitObject item # rl"
        by (auto simp: CubitObject_init_handle[OF h] split: sum.splits)
      from Cons.IH[OF rl] h vs show ?thesis by simp
    qed
  qed
qed

lemma decode_return_holds_handles:
  assumes "decode_return r = Inr v"
  shows "holds_handles v"
proof (cases "cubit_item_to_id r")
  case (Inl e)
  with assms show ?thesis by (simp add: decode_return_def)
next
  case (Inr n)
  show ?thesis
  proof (cases n)
    case (Some k)
    with Inr have h: "is_handle r" by (simp add: is_handle_def)
    from assms Inr Some have "v = PyObject CubitObject r"
      by (simp add: decode_return_def CubitObject_init_handle[OF h])
    with h show ?thesis by simp
  next
    case None
    show ?thesis
    proof (cases "is_list r")
      case True
      then obtain items where r: "r = PyList items" by (cases r) (simp_all add: is_list_def)
      with assms Inr None obtain rl where "decode_items items = Inr rl" "v = PyList rl"
        by (auto simp: decode_return_def split: sum.splits)
      then show ?thesis using decode_items_holds_handles by simp
    next
      case False
      with assms Inr None have "v = r \<and> is_base_type r"
        by (cases r) (auto simp: decode_return_def is_list_def split: if_splits)
      then show ?thesis by (simp add: base_type_holds_handles)
    qed
  qed
qed

lemma CubitConnect_init_handle:
  "CubitConnect_init module_file temp_log w args path = (Inr c, w') \<Longrightarrow> is_handle (snd (cubit c))"
  by (auto simp: CubitConnect_init_def Let_def
      split: option.splits prod.splits sum.splits dest: CubitObject_init_Inr)

text \<open>
  C10.  \<open>CubitObject.__init__\<close> raises TypeError for data that \<open>cubit_item_to_id\<close>
  classifies as no handle, and an instance it returns has a \<open>cubit_id\<close> that is a
  handle.  Every instance in a decoded reply, and the main object that
  \<open>CubitConnect.__init__\<close> creates, therefore holds a handle.
\<close>

theorem instances_hold_handles:
  "(cubit_item_to_id d = Inr None \<longrightarrow>
      CubitObject_init cls d = Inl (TypeError ''Wrong type {}'' (Some d))) \<and>
   (CubitObject_init cls d = Inr obj \<longrightarrow> obj = PyObject cls d \<and> is_handle d) \<and>
   (decode_return r = Inr v \<longrightarrow> holds_handles v) \<and>
   (CubitConnect_init module_file temp_log w args path = (Inr c, w') \<longrightarrow> is_handle (snd (cubit c)))"
proof -
  have a: "cubit_item_to_id d = Inr None \<longrightarrow>
      CubitObject_init cls d = Inl (TypeError ''Wrong type {}'' (Some d))"
    by (simp add: CubitObject_init_def)
  have b: "CubitObject_init cls d = Inr obj \<longrightarrow> obj = PyObject cls d \<and> is_handle d"
    using CubitObject_init_Inr by blast
  have c: "decode_return r = Inr v \<longrightarrow> holds_handles v"
    using decode_return_holds_handles by blast
  have d: "CubitConnect_init module_file temp_log w args path = (Inr c, w') \<longrightarrow>
      is_handle (snd (cubit c))"
    using CubitConnect_init_handle by blast
  from a b c d show ?thesis by (intro conjI)
qed


text \<open>C10: a rejected data list, a decoded list with a handle in it, and a connection.\<close>

theorem instances_hold_handles_witness:
  "CubitObject_init CubitObject (PyList [PyInt Exact 1])
     = Inl (TypeError ''Wrong type {}'' (Some (PyList [PyInt Exact 1]))) \<and>
   is_handle (PyList [PyStr ''cp2t3id_42'', PyStr ''<Vertex>'']) \<and>
   holds_handles
     (PyList [PyObject CubitObject (PyList [PyStr ''cp2t3id_42'', PyStr ''<Vertex>'']),
              PyInt Exact 3]) \<and>
   is_handle (snd (cubit \<lparr>log_check = True,
                          cubit = (CubitObjectMain, PyList [PyStr ''cp2t3id_1'', PyStr ''cubit'']) \<rparr>))"
proof -
  note t1 = instances_hold_handles
    [where d = "PyList [PyInt Exact 1]" and cls = CubitObject]
  note t2 = instances_hold_handles
    [where d = "PyList [PyStr ''cp2t3id_42'', PyStr ''<Vertex>'']" and cls = CubitObject
       and obj = "PyObject CubitObject (PyList [PyStr ''cp2t3id_42'', PyStr ''<Vertex>''])"
       and r = "PyList [PyList [PyStr ''cp2t3id_42'', PyStr ''<Vertex>''], PyInt Exact 3]"
       and v = "PyList [PyObject CubitObject (PyList [PyStr ''cp2t3id_42'', PyStr ''<Vertex>'']),
                        PyInt Exact 3]"
       and module_file = "''cubit_wrapper3.py''" and temp_log = "''/tmp/cubit.log''"
       and w = "\<lparr>sent = [], incoming = [Inr ([], PyNone),
                                         Inr ([], PyList [PyStr ''cp2t3id_1'', PyStr ''cubit''])],
                  n_channels = 1, log_file = None, stdout = []\<rparr>"
       and args = "[''-nojournal'']" and path = "Some ''/opt/cubit''"
       and c = "\<lparr>log_check = True,
                  cubit = (CubitObjectMain, PyList [PyStr ''cp2t3id_1'', PyStr ''cubit''])\<rparr>"
       and w' = "\<lparr>sent = [PyDict [(PyStr ''__file__'', PyStr ''cubit_wrapper3.py''),
                                     (PyStr ''cubit_bin_path'', PyStr ''/opt/cubit''),
                                     (PyStr ''tty'', PyStr ''/tmp/cubit.log'')],
                             PyList [PyStr ''init'',
                                     PyList [PyStr ''-nojournal'', PyStr ''-log'',
                                             PyStr ''/tmp/cubit.log'']]],
                    incoming = [], n_channels = 1, log_file = None, stdout = []\<rparr>"]
  have h1: "cubit_item_to_id (PyList [PyInt Exact 1]) = Inr None"
    by (simp add: cubit_item_to_id_def)
  have h2: "CubitObject_init CubitObject (PyList [PyStr ''cp2t3id_42'', PyStr ''<Vertex>''])
              = Inr (PyObject CubitObject (PyList [PyStr ''cp2t3id_42'', PyStr ''<Vertex>'']))"
    by code_simp
  have h3: "decode_return (PyList [PyList [PyStr ''cp2t3id_42'', PyStr ''<Vertex>''], PyInt Exact 3])
              = Inr (PyList [PyObject CubitObject (PyList [PyStr ''cp2t3id_42'', PyStr ''<Vertex>'']),
                             PyInt Exact 3])"
    by code_simp
  have h4: "CubitConnect_init ''cubit_wrapper3.py'' ''/tmp/cubit.log''
              \<lparr>sent = [], incoming = [Inr ([], PyNone),
                                      Inr ([], PyList [PyStr ''cp2t3id_1'', PyStr ''cubit''])],
               n_channels = 1, log_file = None, stdout = []\<rparr>
              [''-nojournal''] (Some ''/opt/cubit'')
            = (Inr \<lparr>log_check = True,
                    cubit = (CubitObjectMain, PyList [PyStr ''cp2t3id_1'', PyStr ''cubit''])\<rparr>,
               \<lparr>sent = [PyDict [(PyStr ''__file__'', PyStr ''cubit_wrapper3.py''),
                                (PyStr ''cubit_bin_path'', PyStr ''/opt/cubit''),
                                (PyStr ''tty'', PyStr ''/tmp/cubit.log'')],
                        PyList [PyStr ''init'',
                                PyList [PyStr ''-nojournal'', PyStr ''-log'',
                                        PyStr ''/tmp/cubit.log'']]],
                incoming = [], n_channels = 1, log_file = None, stdout = []\<rparr>)"
    by code_simp
  from t1 h1 have c1: "CubitObject_init CubitObject (PyList [PyInt Exact 1])
     = Inl (TypeError ''Wrong type {}'' (Some (PyList [PyInt Exact 1])))" by blast
  from t2 h2 have c2: "is_handle (PyList [PyStr ''cp2t3id_42'', PyStr ''<Vertex>''])" by blast
  from t2 h3 have c3: "holds_handles
     (PyList [PyObject CubitObject (PyList [PyStr ''cp2t3id_42'', PyStr ''<Vertex>'']),
              PyInt Exact 3])" by blast
  from t2 h4 have c4: "is_handle (snd (cubit \<lparr>log_check = True,
                          cubit = (CubitObjectMain, PyList [PyStr ''cp2t3id_1'', PyStr ''cubit'']) \<rparr>))"
    by blast
  from c1 c2 c3 c4 show ?thesis by (intro conjI)
qed


section \<open>Decoding a reply\<close>

lemma handle_not_base: "is_handle v \<Longrightarrow> \<not> is_base_type v"
  by (cases v) (simp_all add: is_handle_def is_base_type_def cubit_item_to_id_def)

lemma decode_items_clean:
  "list_all (\<lambda>item. \<not> isl (cubit_item_to_id item)) items \<Longrightarrow>
   decode_items items =
     (case find (\<lambda>item. \<not> acceptable item) items of
        None \<Rightarrow> Inr (map decoded_item items)
      | Some bad \<Rightarrow> Inl (TypeError ''Expected cubit object, or base_type, got {}!'' (Some bad)))"
proof (induction items)
  case Nil
  then show ?case by simp
next
  case (Cons item items)
  then have ih: "decode_items items =
     (case find (\<lambda>item. \<not> acceptable item) items of
        None \<Rightarrow> Inr (map decoded_item items)
      | Some bad \<Rightarrow> Inl (TypeError ''Expected cubit object, or base_type, got {}!'' (Some bad)))"
    by simp
  from Cons.prems obtain n where n: "cubit_item_to_id item = Inr n"
    by (cases "cubit_item_to_id item") simp_all
  show ?case
  proof (cases n)
    case None
    then have nh: "\<not> is_handle item" using n by (simp add: is_handle_def)
    show ?thesis
      using n None nh ih
      by (simp add: acceptable_def decoded_item_def split: option.splits)
  next
    case (Some k)
    then have h: "is_handle item" using n by (simp add: is_handle_def)
    show ?thesis
      using n Some h ih
      by (simp add: acceptable_def decoded_item_def CubitObject_init_handle[OF h]
          split: option.splits)
  qed
qed

lemma find_None_list_all: "(find (\<lambda>x. \<not> P x) xs = None) = list_all P xs"
  by (induction xs) simp_all

lemma decode_return_handle:
  "is_handle r \<Longrightarrow> decode_return r = Inr (PyObject CubitObject r)"
  by (auto simp: decode_return_def is_handle_def CubitObject_init_def
      split: sum.splits option.splits)

lemma decode_return_list:
  assumes "cleanly_classified (PyList items)" "\<not> is_handle (PyList items)"
  shows "decode_return (PyList items) =
     (case find (\<lambda>item. \<not> acceptable item) items of
        None \<Rightarrow> Inr (PyList (map decoded_item items))
      | Some bad \<Rightarrow> Inl (TypeError ''Expected cubit object, or base_type, got {}!'' (Some bad)))"
proof -
  from assms have n: "cubit_item_to_id (PyList items) = Inr None"
    by (cases "cubit_item_to_id (PyList items)")
       (auto simp: cleanly_classified_def is_handle_def split: option.splits)
  from assms(1) have "list_all (\<lambda>item. \<not> isl (cubit_item_to_id item)) items"
    by (simp add: cleanly_classified_def)
  from decode_items_clean[OF this] n show ?thesis
    by (simp add: decode_return_def split: option.splits)
qed

lemma decode_return_other:
  assumes "cleanly_classified r" "\<not> is_handle r" "\<not> is_list r"
  shows "decode_return r =
     (if is_base_type r then Inr r
      else Inl (TypeError ''Expected cubit object, or base_type, got {}!'' (Some r)))"
  using assms by (cases r) (simp_all add: decode_return_def cubit_item_to_id_def is_list_def)

text \<open>
  Where \<open>int\<close> fails on neither the reply nor an element of it, decoding raises
  TypeError exactly when the reply is no handle, no list of handles and base types, and
  no base type.  A handle becomes an instance of CubitObject.  In a list every handle
  becomes an instance and every base type is kept, and the first element that is neither
  is the value the TypeError carries, no list being returned.  Anything else that is no
  base type is itself the value the TypeError carries.
\<close>

lemma decode_return_type_error:
  "cleanly_classified r \<longrightarrow>
     ((\<exists>m v. decode_return r = Inl (TypeError m v)) \<longleftrightarrow>
        (\<not> is_handle r \<and> \<not> (\<exists>items. r = PyList items \<and> list_all acceptable items) \<and>
         \<not> is_base_type r)) \<and>
     (is_handle r \<longrightarrow> decode_return r = Inr (PyObject CubitObject r)) \<and>
     (\<not> is_handle r \<longrightarrow> (\<forall>items. r = PyList items \<longrightarrow>
        decode_return r =
          (case find (\<lambda>item. \<not> acceptable item) items of
             None \<Rightarrow> Inr (PyList (map decoded_item items))
           | Some bad \<Rightarrow>
               Inl (TypeError ''Expected cubit object, or base_type, got {}!'' (Some bad))))) \<and>
     (\<not> is_handle r \<and> \<not> is_list r \<longrightarrow>
        decode_return r =
          (if is_base_type r then Inr r
           else Inl (TypeError ''Expected cubit object, or base_type, got {}!'' (Some r))))"
proof
  assume c: "cleanly_classified r"
  have b: "is_handle r \<longrightarrow> decode_return r = Inr (PyObject CubitObject r)"
    by (simp add: decode_return_handle)
  have l: "\<not> is_handle r \<longrightarrow> (\<forall>items. r = PyList items \<longrightarrow>
        decode_return r =
          (case find (\<lambda>item. \<not> acceptable item) items of
             None \<Rightarrow> Inr (PyList (map decoded_item items))
           | Some bad \<Rightarrow>
               Inl (TypeError ''Expected cubit object, or base_type, got {}!'' (Some bad))))"
    using c decode_return_list by blast
  have o: "\<not> is_handle r \<and> \<not> is_list r \<longrightarrow>
        decode_return r =
          (if is_base_type r then Inr r
           else Inl (TypeError ''Expected cubit object, or base_type, got {}!'' (Some r)))"
    using c decode_return_other by blast
  have a: "(\<exists>m v. decode_return r = Inl (TypeError m v)) \<longleftrightarrow>
        (\<not> is_handle r \<and> \<not> (\<exists>items. r = PyList items \<and> list_all acceptable items) \<and>
         \<not> is_base_type r)"
  proof (cases "is_handle r")
    case True
    then show ?thesis by (simp add: decode_return_handle)
  next
    case nh: False
    show ?thesis
    proof (cases "is_list r")
      case True
      then obtain items where r: "r = PyList items" by (cases r) (simp_all add: is_list_def)
      have nb: "\<not> is_base_type r" using r by (simp add: is_base_type_def)
      show ?thesis
        using decode_return_list[of items] c nh nb unfolding r
        by (cases "find (\<lambda>item. \<not> acceptable item) items")
           (auto simp: find_None_list_all[symmetric, of acceptable items])
    next
      case False
      then have "\<not> (\<exists>items. r = PyList items \<and> list_all acceptable items)"
        by (auto simp: is_list_def)
      then show ?thesis using decode_return_other[OF c nh False] nh by auto
    qed
  qed
  from a b l o show "((\<exists>m v. decode_return r = Inl (TypeError m v)) \<longleftrightarrow>
        (\<not> is_handle r \<and> \<not> (\<exists>items. r = PyList items \<and> list_all acceptable items) \<and>
         \<not> is_base_type r)) \<and>
     (is_handle r \<longrightarrow> decode_return r = Inr (PyObject CubitObject r)) \<and>
     (\<not> is_handle r \<longrightarrow> (\<forall>items. r = PyList items \<longrightarrow>
        decode_return r =
          (case find (\<lambda>item. \<not> acceptable item) items of
             None \<Rightarrow> Inr (PyList (map decoded_item items))
           | Some bad \<Rightarrow>
               Inl (TypeError ''Expected cubit object, or base_type, got {}!'' (Some bad))))) \<and>
     (\<not> is_handle r \<and> \<not> is_list r \<longrightarrow>
        decode_return r =
          (if is_base_type r then Inr r
           else Inl (TypeError ''Expected cubit object, or base_type, got {}!'' (Some r))))"
    by (intro conjI)
qed


text \<open>
  C7.  The reply \<open>[["cp2t3id_"], []]\<close> is no handle and no base type, and its second
  element is neither: the claim has a TypeError that carries the offending value.
  Decoding it raises the ValueError of the unguarded \<open>int("")\<close>, in \<open>cubit_item_to_id\<close>
  on the first element.
\<close>

theorem decode_return_value_error:
  "\<not> is_handle (PyList [PyList [PyStr ''cp2t3id_''], PyList []]) \<and>
   \<not> list_all acceptable [PyList [PyStr ''cp2t3id_''], PyList []] \<and>
   \<not> is_base_type (PyList [PyList [PyStr ''cp2t3id_''], PyList []]) \<and>
   decode_return (PyList [PyList [PyStr ''cp2t3id_''], PyList []])
     = Inl (ValueError ''invalid literal for int() with base 10'')"
  by code_simp

section \<open>Releasing instances\<close>

lemma channel_receive_keeps:
  "sent (snd (channel_receive w)) = sent w \<and>
   n_channels (snd (channel_receive w)) = n_channels w \<and>
   stdout (snd (channel_receive w)) = stdout w"
  by (simp add: channel_receive_def split: list.splits sum.splits prod.splits)

lemma send_and_return_sent:
  "\<not> (check \<and> n_channels w = 0) \<Longrightarrow>
   sent (snd (send_and_return w m check)) = sent w @ [m] \<and>
   n_channels (snd (send_and_return w m check)) = n_channels w"
  by (simp add: send_and_return_def channel_receive_keeps)

lemma CubitObject_del_no_channel:
  "n_channels w = 0 \<Longrightarrow> CubitObject_del w obj = (Inr PyNone, w)"
  by (simp add: CubitObject_del_def send_and_return_def split: cubit_class.splits)

lemma CubitObject_del_main: "CubitObject_del w (CubitObjectMain, h) = (Inr PyNone, w)"
  by (simp add: CubitObject_del_def)

lemma CubitObject_del_sent:
  "0 < n_channels w \<Longrightarrow>
   sent (snd (CubitObject_del w (CubitObject, h))) = sent w @ [PyList [PyStr ''delete'', h]] \<and>
   n_channels (snd (CubitObject_del w (CubitObject, h))) = n_channels w"
proof -
  assume c: "0 < n_channels w"
  obtain r w1 where r: "send_and_return w (PyList [PyStr ''delete'', h]) True = (r, w1)"
    by (cases "send_and_return w (PyList [PyStr ''delete'', h]) True")
  from send_and_return_sent[of True w "PyList [PyStr ''delete'', h]"] c r
  have "sent w1 = sent w @ [PyList [PyStr ''delete'', h]]" "n_channels w1 = n_channels w"
    by simp_all
  moreover have "snd (CubitObject_del w (CubitObject, h)) = w1"
    by (simp add: CubitObject_del_def r split: sum.splits)
  ultimately show ?thesis by simp
qed

lemma release_no_channel:
  "n_channels (outside s) = 0 \<Longrightarrow>
   fst (release s i) = None \<and> outside (snd (release s i)) = outside s"
  by (simp add: release_def CubitObject_del_no_channel split: option.splits)

lemma release_all_no_channel:
  "n_channels (outside s) = 0 \<Longrightarrow>
   fst (release_all s ids) = [] \<and> outside (snd (release_all s ids)) = outside s"
proof (induction ids arbitrary: s)
  case Nil
  then show ?case by simp
next
  case (Cons i ids)
  obtain r s1 where r: "release s i = (r, s1)" by (cases "release s i")
  with release_no_channel[OF Cons.prems, of i]
  have s1: "r = None" "outside s1 = outside s" by simp_all
  obtain es s2 where es: "release_all s1 ids = (es, s2)" by (cases "release_all s1 ids")
  from Cons.IH[of s1] s1 Cons.prems es have "es = []" "outside s2 = outside s" by simp_all
  with r s1 es show ?case by simp
qed

text \<open>
  C3.  With no channel left, the deletion path returns before it touches the channel:
  \<open>send_and_return\<close> with the check and \<open>__del__\<close> both return \<open>None\<close> and leave the
  world as it is, for every handle; releasing any instances, in any order and number,
  sends nothing and reports no exception.
\<close>

theorem release_without_channel:
  "(n_channels w = 0 \<longrightarrow>
      send_and_return w (PyList [PyStr ''delete'', h]) True = (Inr PyNone, w) \<and>
      CubitObject_del w obj = (Inr PyNone, w)) \<and>
   (n_channels (outside s) = 0 \<longrightarrow>
      fst (release_all s ids) = [] \<and> outside (snd (release_all s ids)) = outside s)"
  by (simp add: release_all_no_channel CubitObject_del_no_channel send_and_return_def)

text \<open>C3: three instances released after the channel has gone.\<close>

theorem release_without_channel_witness:
  "CubitObject_del \<lparr>sent = [], incoming = [], n_channels = 0, log_file = None, stdout = []\<rparr>
       (CubitObject, PyList [PyStr ''cp2t3id_42'', PyStr ''<Vertex>''])
     = (Inr PyNone, \<lparr>sent = [], incoming = [], n_channels = 0, log_file = None, stdout = []\<rparr>) \<and>
   fst (release_all
          \<lparr>outside = \<lparr>sent = [], incoming = [], n_channels = 0, log_file = None, stdout = []\<rparr>,
           objects = (\<lambda>i. if i < 3 then Some (CubitObject, PyList [PyStr ''cp2t3id_42'', PyStr ''<Vertex>''])
                           else None)\<rparr> [0, 1, 2]) = [] \<and>
   outside (snd (release_all
          \<lparr>outside = \<lparr>sent = [], incoming = [], n_channels = 0, log_file = None, stdout = []\<rparr>,
           objects = (\<lambda>i. if i < 3 then Some (CubitObject, PyList [PyStr ''cp2t3id_42'', PyStr ''<Vertex>''])
                           else None)\<rparr> [0, 1, 2]))
     = \<lparr>sent = [], incoming = [], n_channels = 0, log_file = None, stdout = []\<rparr>"
  using release_without_channel
    [where w = "\<lparr>sent = [], incoming = [], n_channels = 0, log_file = None, stdout = []\<rparr>"
       and obj = "(CubitObject, PyList [PyStr ''cp2t3id_42'', PyStr ''<Vertex>''])"
       and s = "\<lparr>outside = \<lparr>sent = [], incoming = [], n_channels = 0, log_file = None, stdout = []\<rparr>,
           objects = (\<lambda>i. if i < 3 then Some (CubitObject, PyList [PyStr ''cp2t3id_42'', PyStr ''<Vertex>''])
                           else None)\<rparr>"
       and ids = "[0, 1, 2]"]
  by simp

lemma release_object:
  assumes "0 < n_channels (outside s)" "objects s i = Some (CubitObject, h)"
  shows "sent (outside (snd (release s i))) = sent (outside s) @ [PyList [PyStr ''delete'', h]]"
    and "n_channels (outside (snd (release s i))) = n_channels (outside s)"
    and "objects (snd (release s i)) = (objects s)(i := None)"
  using assms CubitObject_del_sent[of "outside s" h]
  by (auto simp: release_def split: prod.splits)

lemma release_main:
  "objects s i = Some (CubitObjectMain, h) \<Longrightarrow>
   fst (release s i) = None \<and> outside (snd (release s i)) = outside s"
  by (simp add: release_def CubitObject_del_main)

lemma CubitObject_del_twice:
  assumes "0 < n_channels w"
  shows "sent (snd (CubitObject_del (snd (CubitObject_del w (CubitObject, h))) (CubitObject, h')))
           = sent w @ [PyList [PyStr ''delete'', h], PyList [PyStr ''delete'', h']]"
proof -
  note a = CubitObject_del_sent[OF assms, of h]
  from a assms have "0 < n_channels (snd (CubitObject_del w (CubitObject, h)))" by simp
  from CubitObject_del_sent[OF this, of h'] a show ?thesis by simp
qed

lemma release_alias:
  assumes "0 < n_channels (outside s)" "objects s i = Some (CubitObject, h)"
    "j \<noteq> i" "objects s j = Some (CubitObject, h)"
  shows "sent (outside (snd (release (snd (release s i)) j)))
           = sent (outside s) @ [PyList [PyStr ''delete'', h], PyList [PyStr ''delete'', h]]"
proof -
  note r = release_object[OF assms(1,2)]
  have "0 < n_channels (outside (snd (release s i)))" using r(2) assms(1) by simp
  moreover have "objects (snd (release s i)) j = Some (CubitObject, h)"
    using assms(3,4) by (simp add: r(3))
  ultimately show ?thesis using release_object(1)[of "snd (release s i)" j h] r(1) by simp
qed

text \<open>
  C4, as the code has it.  While a channel is left, a run of \<open>__del__\<close> of an instance of
  CubitObject sends \<open>["delete", cubit_id]\<close> once, and so does releasing an instance that
  is alive.  The method consults nothing else: a second run sends again, be it for
  another instance, with the same \<open>cubit_id\<close> or not, or for the same instance; an
  instance with the same \<open>cubit_id\<close> released after the first sends the same message
  again.  \<open>__del__\<close> of CubitObjectMain sends nothing, whatever the channels.
\<close>

theorem del_sends_delete:
  "(0 < n_channels w \<longrightarrow>
      sent (snd (CubitObject_del w (CubitObject, h)))
        = sent w @ [PyList [PyStr ''delete'', h]] \<and>
      sent (snd (CubitObject_del (snd (CubitObject_del w (CubitObject, h))) (CubitObject, h')))
        = sent w @ [PyList [PyStr ''delete'', h], PyList [PyStr ''delete'', h']]) \<and>
   (0 < n_channels (outside s) \<and> objects s i = Some (CubitObject, h) \<longrightarrow>
      sent (outside (snd (release s i))) = sent (outside s) @ [PyList [PyStr ''delete'', h]] \<and>
      (j \<noteq> i \<and> objects s j = Some (CubitObject, h) \<longrightarrow>
         sent (outside (snd (release (snd (release s i)) j)))
           = sent (outside s) @ [PyList [PyStr ''delete'', h], PyList [PyStr ''delete'', h]])) \<and>
   CubitObject_del w (CubitObjectMain, h) = (Inr PyNone, w) \<and>
   (objects s i = Some (CubitObjectMain, h) \<longrightarrow>
      fst (release s i) = None \<and> outside (snd (release s i)) = outside s)"
proof -
  have a: "0 < n_channels w \<longrightarrow>
      sent (snd (CubitObject_del w (CubitObject, h)))
        = sent w @ [PyList [PyStr ''delete'', h]] \<and>
      sent (snd (CubitObject_del (snd (CubitObject_del w (CubitObject, h))) (CubitObject, h')))
        = sent w @ [PyList [PyStr ''delete'', h], PyList [PyStr ''delete'', h']]"
    using CubitObject_del_sent[of w h] CubitObject_del_twice[of w h h'] by blast
  have b: "0 < n_channels (outside s) \<and> objects s i = Some (CubitObject, h) \<longrightarrow>
      sent (outside (snd (release s i))) = sent (outside s) @ [PyList [PyStr ''delete'', h]] \<and>
      (j \<noteq> i \<and> objects s j = Some (CubitObject, h) \<longrightarrow>
         sent (outside (snd (release (snd (release s i)) j)))
           = sent (outside s) @ [PyList [PyStr ''delete'', h], PyList [PyStr ''delete'', h]])"
    using release_object(1)[of s i h] release_alias[of s i h j] by blast
  have c: "CubitObject_del w (CubitObjectMain, h) = (Inr PyNone, w)"
    by (rule CubitObject_del_main)
  have d: "objects s i = Some (CubitObjectMain, h) \<longrightarrow>
      fst (release s i) = None \<and> outside (snd (release s i)) = outside s"
    using release_main[of s i h] by blast
  from a b c d show ?thesis by (intro conjI)
qed

text \<open>C4: the main object and two instances that share one id.\<close>

theorem del_sends_delete_witness:
  "sent (snd (CubitObject_del \<lparr>sent = [], incoming = [Inr ([], PyNone), Inr ([], PyNone)], n_channels = 1, log_file = None, stdout = []\<rparr> (CubitObject, PyList [PyStr ''cp2t3id_42'', PyStr ''<Vertex>'']))) = [PyList [PyStr ''delete'', PyList [PyStr ''cp2t3id_42'', PyStr ''<Vertex>'']]] \<and>
   sent (outside (snd (release
      
      (\<lparr>outside = \<lparr>sent = [], incoming = [Inr ([], PyNone), Inr ([], PyNone)], n_channels = 1, log_file = None, stdout = []\<rparr>,
       objects = (\<lambda>k. if k = 0 then Some (CubitObjectMain, PyList [PyStr ''cp2t3id_1'', PyStr ''<cubit>''])
                      else if k < 3 then Some (CubitObject, PyList [PyStr ''cp2t3id_42'', PyStr ''<Vertex>'']) else None)\<rparr>) 1))) = [PyList [PyStr ''delete'', PyList [PyStr ''cp2t3id_42'', PyStr ''<Vertex>'']]] \<and>
   sent (outside (snd (release (snd (release
      
      (\<lparr>outside = \<lparr>sent = [], incoming = [Inr ([], PyNone), Inr ([], PyNone)], n_channels = 1, log_file = None, stdout = []\<rparr>,
       objects = (\<lambda>k. if k = 0 then Some (CubitObjectMain, PyList [PyStr ''cp2t3id_1'', PyStr ''<cubit>''])
                      else if k < 3 then Some (CubitObject, PyList [PyStr ''cp2t3id_42'', PyStr ''<Vertex>'']) else None)\<rparr>) 1)) 2))) = [PyList [PyStr ''delete'', PyList [PyStr ''cp2t3id_42'', PyStr ''<Vertex>'']], PyList [PyStr ''delete'', PyList [PyStr ''cp2t3id_42'', PyStr ''<Vertex>'']]] \<and>
   fst (release
      
      (\<lparr>outside = \<lparr>sent = [], incoming = [Inr ([], PyNone), Inr ([], PyNone)], n_channels = 1, log_file = None, stdout = []\<rparr>,
       objects = (\<lambda>k. if k = 0 then Some (CubitObjectMain, PyList [PyStr ''cp2t3id_1'', PyStr ''<cubit>''])
                      else if k < 3 then Some (CubitObject, PyList [PyStr ''cp2t3id_42'', PyStr ''<Vertex>'']) else None)\<rparr>) 0) = None \<and>
   sent (outside (snd (release
      
      (\<lparr>outside = \<lparr>sent = [], incoming = [Inr ([], PyNone), Inr ([], PyNone)], n_channels = 1, log_file = None, stdout = []\<rparr>,
       objects = (\<lambda>k. if k = 0 then Some (CubitObjectMain, PyList [PyStr ''cp2t3id_1'', PyStr ''<cubit>''])
                      else if k < 3 then Some (CubitObject, PyList [PyStr ''cp2t3id_42'', PyStr ''<Vertex>'']) else None)\<rparr>) 0))) = []"
  using del_sends_delete
    [where w = "\<lparr>sent = [], incoming = [Inr ([], PyNone), Inr ([], PyNone)], n_channels = 1, log_file = None, stdout = []\<rparr>" and h = "PyList [PyStr ''cp2t3id_42'', PyStr ''<Vertex>'']" and h' = "PyList [PyStr ''cp2t3id_42'', PyStr ''<Vertex>'']"
       and s = "\<lparr>outside = \<lparr>sent = [], incoming = [Inr ([], PyNone), Inr ([], PyNone)], n_channels = 1, log_file = None, stdout = []\<rparr>,
       objects = (\<lambda>k. if k = 0 then Some (CubitObjectMain, PyList [PyStr ''cp2t3id_1'', PyStr ''<cubit>''])
                      else if k < 3 then Some (CubitObject, PyList [PyStr ''cp2t3id_42'', PyStr ''<Vertex>'']) else None)\<rparr>" and i = 1 and j = 2]
    del_sends_delete
    [where s = "\<lparr>outside = \<lparr>sent = [], incoming = [Inr ([], PyNone), Inr ([], PyNone)], n_channels = 1, log_file = None, stdout = []\<rparr>,
       objects = (\<lambda>k. if k = 0 then Some (CubitObjectMain, PyList [PyStr ''cp2t3id_1'', PyStr ''<cubit>''])
                      else if k < 3 then Some (CubitObject, PyList [PyStr ''cp2t3id_42'', PyStr ''<Vertex>'']) else None)\<rparr>" and i = 0 and h = "PyList [PyStr ''cp2t3id_1'', PyStr ''<cubit>'']"]
  by simp

text \<open>
  C4 as stated fails twice.  With no channel left, releasing an instance of CubitObject
  that is alive sends no deletion message.  And nothing in \<open>__del__\<close> remembers that it
  has run: run again for the same instance, it sends the deletion message a second time.
\<close>

theorem delete_not_exactly_once:
  "objects 
      (\<lparr>outside = \<lparr>sent = [], incoming = [Inr ([], PyNone), Inr ([], PyNone)], n_channels = 0, log_file = None, stdout = []\<rparr>,
       objects = (\<lambda>k. if k = 0 then Some (CubitObjectMain, PyList [PyStr ''cp2t3id_1'', PyStr ''<cubit>''])
                      else if k < 3 then Some (CubitObject, PyList [PyStr ''cp2t3id_42'', PyStr ''<Vertex>'']) else None)\<rparr>) 1 = Some (CubitObject, PyList [PyStr ''cp2t3id_42'', PyStr ''<Vertex>'']) \<and>
   sent (outside (snd (release
      
      (\<lparr>outside = \<lparr>sent = [], incoming = [Inr ([], PyNone), Inr ([], PyNone)], n_channels = 0, log_file = None, stdout = []\<rparr>,
       objects = (\<lambda>k. if k = 0 then Some (CubitObjectMain, PyList [PyStr ''cp2t3id_1'', PyStr ''<cubit>''])
                      else if k < 3 then Some (CubitObject, PyList [PyStr ''cp2t3id_42'', PyStr ''<Vertex>'']) else None)\<rparr>) 1))) = [] \<and>
   sent (snd (CubitObject_del (snd (CubitObject_del \<lparr>sent = [], incoming = [Inr ([], PyNone), Inr ([], PyNone)], n_channels = 1, log_file = None, stdout = []\<rparr> (CubitObject, PyList [PyStr ''cp2t3id_42'', PyStr ''<Vertex>'']))) (CubitObject, PyList [PyStr ''cp2t3id_42'', PyStr ''<Vertex>''])))
     = [PyList [PyStr ''delete'', PyList [PyStr ''cp2t3id_42'', PyStr ''<Vertex>'']], PyList [PyStr ''delete'', PyList [PyStr ''cp2t3id_42'', PyStr ''<Vertex>'']]]"
  by (simp add: release_def CubitObject_del_def send_and_return_def channel_receive_def)

section \<open>Resolving an attribute\<close>

lemma send_and_return_reply:
  assumes "incoming w = Inr (t, reply) # rest"
  shows "fst (send_and_return w m False) = Inr reply"
    and "sent (snd (send_and_return w m False)) = sent w @ [m]"
    and "incoming (snd (send_and_return w m False)) = rest"
    and "log_file w \<noteq> None \<Longrightarrow> log_file (snd (send_and_return w m False)) \<noteq> None"
  using assms by (simp_all add: send_and_return_def channel_receive_def)

lemma send_and_return_appends:
  "sent (snd (send_and_return w m False)) = sent w @ [m]"
  by (simp add: send_and_return_def channel_receive_def
      split: list.splits sum.splits prod.splits)

lemma empty_log_keeps:
  "sent (snd (empty_log w)) = sent w \<and> incoming (snd (empty_log w)) = incoming w"
  by (simp add: empty_log_def split: option.splits)

lemma empty_log_ok:
  "log_file w \<noteq> None \<Longrightarrow> fst (empty_log w) = Inr () \<and> log_file (snd (empty_log w)) \<noteq> None"
  by (auto simp: empty_log_def split: option.splits)

lemma print_log_keeps:
  "sent (snd (print_log w)) = sent w \<and> incoming (snd (print_log w)) = incoming w"
  by (simp add: print_log_def split: option.splits)

lemma print_log_ok: "log_file w \<noteq> None \<Longrightarrow> fst (print_log w) = Inr ()"
  by (auto simp: print_log_def split: option.splits)

lemma function_appends:
  "\<exists>ms. sent (snd (get_attribute_function self w obj name args)) = sent w @ ms"
proof -
  define w1 where "w1 = (if log_check self then snd (empty_log w) else w)"
  define m where "m = PyList [snd obj, PyStr name, serialize_item (PyTuple args)]"
  define w2 where "w2 = snd (send_and_return w1 m False)"
  define w3 where "w3 = (if log_check self then snd (print_log w2) else w2)"
  have s1: "sent w1 = sent w" by (simp add: w1_def empty_log_keeps)
  have s2: "sent w2 = sent w @ [m]" by (simp add: w2_def send_and_return_appends s1)
  have s3: "sent w3 = sent w @ [m]" by (simp add: w3_def print_log_keeps s2)
  have "snd (get_attribute_function self w obj name args) \<in> {w1, w2, w3}"
    unfolding get_attribute_function_def Let_def w1_def w2_def w3_def m_def
    by (auto split: prod.splits sum.splits)
  then show ?thesis using s1 s2 s3 by auto
qed

lemma function_reply:
  assumes i: "incoming w = Inr (t, reply) # rest"
    and l: "log_check self \<longrightarrow> log_file w \<noteq> None"
  shows "fst (get_attribute_function self w obj name args) = decode_return reply"
    and "sent (snd (get_attribute_function self w obj name args))
           = sent w @ [PyList [snd obj, PyStr name, serialize_item (PyTuple args)]]"
    and "incoming (snd (get_attribute_function self w obj name args)) = rest"
proof -
  define w1 where "w1 = (if log_check self then snd (empty_log w) else w)"
  define m where "m = PyList [snd obj, PyStr name, serialize_item (PyTuple args)]"
  define w2 where "w2 = snd (send_and_return w1 m False)"
  define w3 where "w3 = (if log_check self then snd (print_log w2) else w2)"
  have e1: "(if log_check self then empty_log w else (Inr (), w)) = (Inr (), w1)"
    using l empty_log_ok[of w] by (cases "empty_log w") (auto simp: w1_def)
  have i1: "incoming w1 = Inr (t, reply) # rest" "sent w1 = sent w"
    using i by (simp_all add: w1_def empty_log_keeps)
  have l1: "log_check self \<longrightarrow> log_file w1 \<noteq> None"
    using l empty_log_ok[of w] by (simp add: w1_def)
  have e2: "send_and_return w1 m False = (Inr reply, w2)"
    using send_and_return_reply(1)[OF i1(1), of m]
    by (cases "send_and_return w1 m False") (simp add: w2_def)
  have i2: "incoming w2 = rest" "sent w2 = sent w @ [m]"
    using send_and_return_reply(2,3)[OF i1(1), of m] i1(2) by (simp_all add: w2_def)
  have l2: "log_check self \<longrightarrow> log_file w2 \<noteq> None"
    using l1 send_and_return_reply(4)[OF i1(1), of m] by (simp add: w2_def)
  have e3: "(if log_check self then print_log w2 else (Inr (), w2)) = (Inr (), w3)"
    using l2 print_log_ok[of w2] by (cases "print_log w2") (auto simp: w3_def)
  have i3: "incoming w3 = rest" "sent w3 = sent w @ [m]"
    using i2 by (simp_all add: w3_def print_log_keeps)
  have r: "get_attribute_function self w obj name args = (decode_return reply, w3)"
    unfolding get_attribute_function_def Let_def e1 m_def[symmetric] by (simp add: e2 e3)
  show "fst (get_attribute_function self w obj name args) = decode_return reply"
    and "sent (snd (get_attribute_function self w obj name args))
           = sent w @ [PyList [snd obj, PyStr name, serialize_item (PyTuple args)]]"
    and "incoming (snd (get_attribute_function self w obj name args)) = rest"
    using r i3 by (simp_all add: m_def)
qed

lemma get_attribute_asks_first:
  "take (Suc (length (sent w))) (sent (snd (get_attribute self w obj name)))
     = sent w @ [PyList [PyStr ''iscallable'', snd obj, PyStr name]]"
proof -
  define q where "q = PyList [PyStr ''iscallable'', snd obj, PyStr name]"
  define w1 where "w1 = snd (send_and_return w q False)"
  have s1: "sent w1 = sent w @ [q]" by (simp add: w1_def send_and_return_appends)
  obtain ms where ms: "sent (snd (get_attribute_function self w1 obj name [])) = sent w1 @ ms"
    using function_appends by blast
  have "snd (get_attribute self w obj name)
          \<in> {w1, snd (get_attribute_function self w1 obj name [])}"
    unfolding get_attribute_def q_def[symmetric] w1_def
    by (auto split: prod.splits sum.splits bool.splits)
  then show ?thesis using s1 ms unfolding q_def[symmetric] by auto
qed

lemma get_attribute_callable:
  assumes "incoming w = Inr (t, reply) # rest" "py_truthy reply = Inr True"
  shows "fst (get_attribute self w obj name) = Inr (Function obj name)"
    and "sent (snd (get_attribute self w obj name))
           = sent w @ [PyList [PyStr ''iscallable'', snd obj, PyStr name]]"
    and "incoming (snd (get_attribute self w obj name)) = rest"
proof -
  define q where "q = PyList [PyStr ''iscallable'', snd obj, PyStr name]"
  define w1 where "w1 = snd (send_and_return w q False)"
  have e: "send_and_return w q False = (Inr reply, w1)"
    using send_and_return_reply(1)[OF assms(1), of q]
    by (cases "send_and_return w q False") (simp add: w1_def)
  have r: "get_attribute self w obj name = (Inr (Function obj name), w1)"
    unfolding get_attribute_def q_def[symmetric] by (simp add: e assms(2))
  show "fst (get_attribute self w obj name) = Inr (Function obj name)"
    and "sent (snd (get_attribute self w obj name))
           = sent w @ [PyList [PyStr ''iscallable'', snd obj, PyStr name]]"
    and "incoming (snd (get_attribute self w obj name)) = rest"
    using r send_and_return_reply(2,3)[OF assms(1), of q]
    by (simp_all add: w1_def q_def)
qed

lemma get_attribute_value:
  assumes i: "incoming w = Inr (t, reply) # Inr (t', reply') # rest"
    and f: "py_truthy reply = Inr False"
    and l: "log_check self \<longrightarrow> log_file w \<noteq> None"
  shows "fst (get_attribute self w obj name)
           = (case decode_return reply' of Inl e \<Rightarrow> Inl e | Inr v \<Rightarrow> Inr (Value v))"
    and "sent (snd (get_attribute self w obj name))
           = sent w @ [PyList [PyStr ''iscallable'', snd obj, PyStr name],
                       PyList [snd obj, PyStr name, PyList []]]"
    and "incoming (snd (get_attribute self w obj name)) = rest"
proof -
  define q where "q = PyList [PyStr ''iscallable'', snd obj, PyStr name]"
  define w1 where "w1 = snd (send_and_return w q False)"
  have e: "send_and_return w q False = (Inr reply, w1)"
    using send_and_return_reply(1)[OF i, of q]
    by (cases "send_and_return w q False") (simp add: w1_def)
  have i1: "incoming w1 = Inr (t', reply') # rest" "sent w1 = sent w @ [q]"
    using send_and_return_reply(2,3)[OF i, of q] by (simp_all add: w1_def)
  have l1: "log_check self \<longrightarrow> log_file w1 \<noteq> None"
    using l send_and_return_reply(4)[OF i, of q] by (simp add: w1_def)
  note fr = function_reply[OF i1(1) l1, of obj name "[]"]
  obtain x w2 where x: "get_attribute_function self w1 obj name [] = (x, w2)"
    by (cases "get_attribute_function self w1 obj name []")
  with fr have x2: "x = decode_return reply'"
    "sent w2 = sent w1 @ [PyList [snd obj, PyStr name, PyList []]]" "incoming w2 = rest"
    by simp_all
  have r: "get_attribute self w obj name
             = ((case x of Inl e \<Rightarrow> Inl e | Inr v \<Rightarrow> Inr (Value v)), w2)"
    unfolding get_attribute_def q_def[symmetric]
    by (simp add: e f x split: sum.splits)
  show "fst (get_attribute self w obj name)
           = (case decode_return reply' of Inl e \<Rightarrow> Inl e | Inr v \<Rightarrow> Inr (Value v))"
    and "sent (snd (get_attribute self w obj name))
           = sent w @ [PyList [PyStr ''iscallable'', snd obj, PyStr name],
                       PyList [snd obj, PyStr name, PyList []]]"
    and "incoming (snd (get_attribute self w obj name)) = rest"
    using r x2 i1 by (simp_all add: q_def)
qed

text \<open>
  C1, as the code has it.  For a name that python3 does not find on the object itself,
  \<open>__getattribute__\<close> is \<open>get_attribute\<close>, and the first message that sends is
  \<open>["iscallable", cubit_id, name]\<close>.  If the reply is true the result is the closure
  \<open>function\<close> and nothing more is sent.  If the reply is false, \<open>function\<close> is called
  at once with no arguments: \<open>[cubit_id, name, []]\<close> is sent and the result is the
  decoded reply to it (the log file, where it is checked, being there).
\<close>

theorem attribute_resolution:
  "name \<notin> set python3_attributes \<and> \<not> inherited name \<longrightarrow>
     CubitObject_getattribute inherited self w obj name = get_attribute self w obj name \<and>
     take (Suc (length (sent w))) (sent (snd (get_attribute self w obj name)))
       = sent w @ [PyList [PyStr ''iscallable'', snd obj, PyStr name]] \<and>
     (incoming w = Inr (t, reply) # rest \<and> py_truthy reply = Inr True \<longrightarrow>
        fst (get_attribute self w obj name) = Inr (Function obj name) \<and>
        sent (snd (get_attribute self w obj name))
          = sent w @ [PyList [PyStr ''iscallable'', snd obj, PyStr name]] \<and>
        incoming (snd (get_attribute self w obj name)) = rest) \<and>
     (incoming w = Inr (t, reply) # Inr (t', reply') # rest' \<and> py_truthy reply = Inr False \<and>
      (log_check self \<longrightarrow> log_file w \<noteq> None) \<longrightarrow>
        fst (get_attribute self w obj name)
          = (case decode_return reply' of Inl e \<Rightarrow> Inl e | Inr v \<Rightarrow> Inr (Value v)) \<and>
        sent (snd (get_attribute self w obj name))
          = sent w @ [PyList [PyStr ''iscallable'', snd obj, PyStr name],
                      PyList [snd obj, PyStr name, PyList []]] \<and>
        incoming (snd (get_attribute self w obj name)) = rest')"
  using get_attribute_asks_first[of w self obj name]
    get_attribute_callable[of w t reply rest self obj name]
    get_attribute_value[of w t reply t' reply' rest' self obj name]
  by (simp add: CubitObject_getattribute_def)


text \<open>C1: a callable attribute \<open>mesh\<close> and a value attribute \<open>id\<close> whose value is 5.\<close>

theorem attribute_resolution_witness:
  "fst (CubitObject_getattribute (\<lambda>n. n = ''__class__'')
          \<lparr>log_check = False, cubit = (CubitObjectMain, PyList [PyStr ''cp2t3id_1'', PyStr ''<cubit>''])\<rparr>
          \<lparr>sent = [], incoming = [Inr ([], PyBool True)], n_channels = 1, log_file = None, stdout = []\<rparr>
          (CubitObject, PyList [PyStr ''cp2t3id_42'', PyStr ''<Vertex>'']) ''mesh'')
     = Inr (Function (CubitObject, PyList [PyStr ''cp2t3id_42'', PyStr ''<Vertex>'']) ''mesh'') \<and>
   sent (snd (CubitObject_getattribute (\<lambda>n. n = ''__class__'')
          \<lparr>log_check = False, cubit = (CubitObjectMain, PyList [PyStr ''cp2t3id_1'', PyStr ''<cubit>''])\<rparr>
          \<lparr>sent = [], incoming = [Inr ([], PyBool True)], n_channels = 1, log_file = None, stdout = []\<rparr>
          (CubitObject, PyList [PyStr ''cp2t3id_42'', PyStr ''<Vertex>'']) ''mesh''))
     = [PyList [PyStr ''iscallable'', PyList [PyStr ''cp2t3id_42'', PyStr ''<Vertex>''], PyStr ''mesh'']] \<and>
   fst (CubitObject_getattribute (\<lambda>n. n = ''__class__'')
          \<lparr>log_check = True, cubit = (CubitObjectMain, PyList [PyStr ''cp2t3id_1'', PyStr ''<cubit>''])\<rparr>
          \<lparr>sent = [], incoming = [Inr ([], PyBool False), Inr (''id'', PyInt Exact 5)], n_channels = 1, log_file = Some ''old'', stdout = []\<rparr>
          (CubitObject, PyList [PyStr ''cp2t3id_42'', PyStr ''<Vertex>'']) ''id'')
     = Inr (Value (PyInt Exact 5)) \<and>
   sent (snd (CubitObject_getattribute (\<lambda>n. n = ''__class__'')
          \<lparr>log_check = True, cubit = (CubitObjectMain, PyList [PyStr ''cp2t3id_1'', PyStr ''<cubit>''])\<rparr>
          \<lparr>sent = [], incoming = [Inr ([], PyBool False), Inr (''id'', PyInt Exact 5)], n_channels = 1, log_file = Some ''old'', stdout = []\<rparr>
          (CubitObject, PyList [PyStr ''cp2t3id_42'', PyStr ''<Vertex>'']) ''id''))
     = [PyList [PyStr ''iscallable'', PyList [PyStr ''cp2t3id_42'', PyStr ''<Vertex>''], PyStr ''id''],
        PyList [PyList [PyStr ''cp2t3id_42'', PyStr ''<Vertex>''], PyStr ''id'', PyList []]]"
proof -
  note t1 = attribute_resolution
    [where inherited = "(\<lambda>n. n = ''__class__'')"
       and self = "\<lparr>log_check = False, cubit = (CubitObjectMain, PyList [PyStr ''cp2t3id_1'', PyStr ''<cubit>''])\<rparr>"
       and w = "\<lparr>sent = [], incoming = [Inr ([], PyBool True)], n_channels = 1, log_file = None, stdout = []\<rparr>"
       and obj = "(CubitObject, PyList [PyStr ''cp2t3id_42'', PyStr ''<Vertex>''])" and name = "''mesh''"
       and t = "[]" and reply = "PyBool True" and rest = "[]"]
  note t2 = attribute_resolution
    [where inherited = "(\<lambda>n. n = ''__class__'')"
       and self = "\<lparr>log_check = True, cubit = (CubitObjectMain, PyList [PyStr ''cp2t3id_1'', PyStr ''<cubit>''])\<rparr>"
       and w = "\<lparr>sent = [], incoming = [Inr ([], PyBool False), Inr (''id'', PyInt Exact 5)], n_channels = 1, log_file = Some ''old'', stdout = []\<rparr>"
       and obj = "(CubitObject, PyList [PyStr ''cp2t3id_42'', PyStr ''<Vertex>''])" and name = "''id''"
       and t = "[]" and reply = "PyBool False" and t' = "''id''" and reply' = "PyInt Exact 5"
       and rest' = "[]"]
  have n1: "''mesh'' \<notin> set python3_attributes \<and> \<not> (\<lambda>n. n = ''__class__'') ''mesh''"
    by (simp add: python3_attributes_def)
  have n2: "''id'' \<notin> set python3_attributes \<and> \<not> (\<lambda>n. n = ''__class__'') ''id''"
    by (simp add: python3_attributes_def)
  have p: "py_truthy (PyBool True) = Inr True" "py_truthy (PyBool False) = Inr False"
    by (simp_all add: py_truthy_def)
  have d: "decode_return (PyInt Exact 5) = Inr (PyInt Exact 5)"
    by (simp add: decode_return_def cubit_item_to_id_def is_base_type_def)
  from t1 n1 p(1) have c1: "fst (CubitObject_getattribute (\<lambda>n. n = ''__class__'')
          \<lparr>log_check = False, cubit = (CubitObjectMain, PyList [PyStr ''cp2t3id_1'', PyStr ''<cubit>''])\<rparr>
          \<lparr>sent = [], incoming = [Inr ([], PyBool True)], n_channels = 1, log_file = None, stdout = []\<rparr>
          (CubitObject, PyList [PyStr ''cp2t3id_42'', PyStr ''<Vertex>'']) ''mesh'')
     = Inr (Function (CubitObject, PyList [PyStr ''cp2t3id_42'', PyStr ''<Vertex>'']) ''mesh'') \<and>
   sent (snd (CubitObject_getattribute (\<lambda>n. n = ''__class__'')
          \<lparr>log_check = False, cubit = (CubitObjectMain, PyList [PyStr ''cp2t3id_1'', PyStr ''<cubit>''])\<rparr>
          \<lparr>sent = [], incoming = [Inr ([], PyBool True)], n_channels = 1, log_file = None, stdout = []\<rparr>
          (CubitObject, PyList [PyStr ''cp2t3id_42'', PyStr ''<Vertex>'']) ''mesh''))
     = [PyList [PyStr ''iscallable'', PyList [PyStr ''cp2t3id_42'', PyStr ''<Vertex>''], PyStr ''mesh'']]"
    by simp
  from t2 n2 p(2) d have c2: "fst (CubitObject_getattribute (\<lambda>n. n = ''__class__'')
          \<lparr>log_check = True, cubit = (CubitObjectMain, PyList [PyStr ''cp2t3id_1'', PyStr ''<cubit>''])\<rparr>
          \<lparr>sent = [], incoming = [Inr ([], PyBool False), Inr (''id'', PyInt Exact 5)], n_channels = 1, log_file = Some ''old'', stdout = []\<rparr>
          (CubitObject, PyList [PyStr ''cp2t3id_42'', PyStr ''<Vertex>'']) ''id'')
     = Inr (Value (PyInt Exact 5)) \<and>
   sent (snd (CubitObject_getattribute (\<lambda>n. n = ''__class__'')
          \<lparr>log_check = True, cubit = (CubitObjectMain, PyList [PyStr ''cp2t3id_1'', PyStr ''<cubit>''])\<rparr>
          \<lparr>sent = [], incoming = [Inr ([], PyBool False), Inr (''id'', PyInt Exact 5)], n_channels = 1, log_file = Some ''old'', stdout = []\<rparr>
          (CubitObject, PyList [PyStr ''cp2t3id_42'', PyStr ''<Vertex>'']) ''id''))
     = [PyList [PyStr ''iscallable'', PyList [PyStr ''cp2t3id_42'', PyStr ''<Vertex>''], PyStr ''id''],
        PyList [PyList [PyStr ''cp2t3id_42'', PyStr ''<Vertex>''], PyStr ''id'', PyList []]]"
    by simp
  from c1 c2 show ?thesis by simp
qed

text \<open>
  C1 as stated fails: \<open>cubit_id\<close> is an attribute that \<open>__init__\<close> sets on the object,
  so resolving it asks the connection nothing, although replies are waiting.
\<close>

theorem attribute_found_in_python3:
  "CubitObject_getattribute (\<lambda>n. n = ''__class__'')
     \<lparr>log_check = False, cubit = (CubitObjectMain, PyList [PyStr ''cp2t3id_1'', PyStr ''<cubit>''])\<rparr>
     \<lparr>sent = [], incoming = [Inr ([], PyBool False), Inr (''id'', PyInt Exact 5)], n_channels = 1, log_file = Some ''old'', stdout = []\<rparr>
     (CubitObject, PyList [PyStr ''cp2t3id_42'', PyStr ''<Vertex>'']) ''cubit_id''
   = (Inr (Python3 ''cubit_id''),
      \<lparr>sent = [], incoming = [Inr ([], PyBool False), Inr (''id'', PyInt Exact 5)], n_channels = 1, log_file = Some ''old'', stdout = []\<rparr>)"
  by (simp add: CubitObject_getattribute_def python3_attributes_def)

section \<open>The geometry type of an object\<close>

lemma isinstance_test_reply:
  assumes "incoming w = Inr (t, reply) # rest"
  shows "isinstance_test w obj g = (py_truthy reply, snd (isinstance_test w obj g))"
    and "sent (snd (isinstance_test w obj g))
           = sent w @ [PyList [PyStr ''isinstance'', snd obj, PyStr g]]"
    and "incoming (snd (isinstance_test w obj g)) = rest"
  using assms
  by (simp_all add: isinstance_test_def CubitObject_isinstance_def send_and_return_def
      channel_receive_def)

lemma utils_get_geometry_type_item:
  "utils_get_geometry_type group_method w (Item obj) = get_geometry_type w obj"
  by (simp add: utils_get_geometry_type_def get_geometry_type_def)

text \<open>
  C9, as the code has it.  \<open>get_geometry_type\<close> sends the isinstance queries for
  \<open>cubitpy_vertex\<close>, \<open>cubitpy_curve\<close>, \<open>cubitpy_surface\<close> and \<open>cubitpy_volume\<close> in
  this order, stops at the first reply that is true and returns the geometry type of
  that query.  If all four replies are false it raises TypeError with the fixed message
  \<open>The item is not a valid geometry!\<close>, which carries no value.  The function of
  utils.py does the same for an item that is no group.
\<close>

theorem geometry_type_first_match:
  "incoming w = Inr (t1, r1) # Inr (t2, r2) # Inr (t3, r3) # Inr (t4, r4) # rest \<and>
   py_truthy r1 = Inr b1 \<and> py_truthy r2 = Inr b2 \<and>
   py_truthy r3 = Inr b3 \<and> py_truthy r4 = Inr b4 \<longrightarrow>
     fst (get_geometry_type w obj)
       = (if b1 then Inr vertex else if b2 then Inr curve
          else if b3 then Inr surface else if b4 then Inr volume
          else Inl (TypeError ''The item is not a valid geometry!'' None)) \<and>
     sent (snd (get_geometry_type w obj))
       = sent w @ take (if b1 then 1 else if b2 then 2 else if b3 then 3 else 4)
           [PyList [PyStr ''isinstance'', snd obj, PyStr ''cubitpy_vertex''],
            PyList [PyStr ''isinstance'', snd obj, PyStr ''cubitpy_curve''],
            PyList [PyStr ''isinstance'', snd obj, PyStr ''cubitpy_surface''],
            PyList [PyStr ''isinstance'', snd obj, PyStr ''cubitpy_volume'']] \<and>
     utils_get_geometry_type group_method w (Item obj) = get_geometry_type w obj"
proof (intro impI, elim conjE)
  assume i: "incoming w = Inr (t1, r1) # Inr (t2, r2) # Inr (t3, r3) # Inr (t4, r4) # rest"
    and p: "py_truthy r1 = Inr b1" "py_truthy r2 = Inr b2"
      "py_truthy r3 = Inr b3" "py_truthy r4 = Inr b4"
  define w1 where "w1 = snd (isinstance_test w obj ''cubitpy_vertex'')"
  define w2 where "w2 = snd (isinstance_test w1 obj ''cubitpy_curve'')"
  define w3 where "w3 = snd (isinstance_test w2 obj ''cubitpy_surface'')"
  define w4 where "w4 = snd (isinstance_test w3 obj ''cubitpy_volume'')"
  note a1 = isinstance_test_reply[OF i, of obj "''cubitpy_vertex''", folded w1_def]
  note a2 = isinstance_test_reply[OF a1(3), of obj "''cubitpy_curve''", folded w2_def]
  note a3 = isinstance_test_reply[OF a2(3), of obj "''cubitpy_surface''", folded w3_def]
  note a4 = isinstance_test_reply[OF a3(3), of obj "''cubitpy_volume''", folded w4_def]
  have r: "get_geometry_type w obj =
      (if b1 then (Inr vertex, w1) else if b2 then (Inr curve, w2)
       else if b3 then (Inr surface, w3) else if b4 then (Inr volume, w4)
       else (Inl (TypeError ''The item is not a valid geometry!'' None), w4))"
    unfolding get_geometry_type_def
    by (simp add: a1(1) a2(1) a3(1) a4(1) p)
  show "fst (get_geometry_type w obj)
       = (if b1 then Inr vertex else if b2 then Inr curve
          else if b3 then Inr surface else if b4 then Inr volume
          else Inl (TypeError ''The item is not a valid geometry!'' None)) \<and>
     sent (snd (get_geometry_type w obj))
       = sent w @ take (if b1 then 1 else if b2 then 2 else if b3 then 3 else 4)
           [PyList [PyStr ''isinstance'', snd obj, PyStr ''cubitpy_vertex''],
            PyList [PyStr ''isinstance'', snd obj, PyStr ''cubitpy_curve''],
            PyList [PyStr ''isinstance'', snd obj, PyStr ''cubitpy_surface''],
            PyList [PyStr ''isinstance'', snd obj, PyStr ''cubitpy_volume'']] \<and>
     utils_get_geometry_type group_method w (Item obj) = get_geometry_type w obj"
    unfolding utils_get_geometry_type_item r
    by (simp add: a1(2) a2(2) a3(2) a4(2))
qed

text \<open>C9: an object that is a surface, and one that matches nothing.\<close>

theorem geometry_type_first_match_witness:
  "fst (get_geometry_type
          \<lparr>sent = [], incoming = [Inr ([], PyBool False), Inr ([], PyBool False), Inr ([], PyBool True), Inr ([], PyBool False)], n_channels = 1, log_file = None, stdout = []\<rparr>
          (CubitObject, PyList [PyStr ''cp2t3id_42'', PyStr ''<Vertex>''])) = Inr surface \<and>
   sent (snd (get_geometry_type
          \<lparr>sent = [], incoming = [Inr ([], PyBool False), Inr ([], PyBool False), Inr ([], PyBool True), Inr ([], PyBool False)], n_channels = 1, log_file = None, stdout = []\<rparr>
          (CubitObject, PyList [PyStr ''cp2t3id_42'', PyStr ''<Vertex>''])))
     = [PyList [PyStr ''isinstance'', PyList [PyStr ''cp2t3id_42'', PyStr ''<Vertex>''], PyStr ''cubitpy_vertex''],
        PyList [PyStr ''isinstance'', PyList [PyStr ''cp2t3id_42'', PyStr ''<Vertex>''], PyStr ''cubitpy_curve''],
        PyList [PyStr ''isinstance'', PyList [PyStr ''cp2t3id_42'', PyStr ''<Vertex>''], PyStr ''cubitpy_surface'']] \<and>
   fst (get_geometry_type
          \<lparr>sent = [], incoming = [Inr ([], PyBool False), Inr ([], PyBool False), Inr ([], PyBool False), Inr ([], PyBool False)], n_channels = 1, log_file = None, stdout = []\<rparr>
          (CubitObject, PyList [PyStr ''cp2t3id_42'', PyStr ''<Vertex>'']))
     = Inl (TypeError ''The item is not a valid geometry!'' None) \<and>
   sent (snd (get_geometry_type
          \<lparr>sent = [], incoming = [Inr ([], PyBool False), Inr ([], PyBool False), Inr ([], PyBool False), Inr ([], PyBool False)], n_channels = 1, log_file = None, stdout = []\<rparr>
          (CubitObject, PyList [PyStr ''cp2t3id_42'', PyStr ''<Vertex>''])))
     = [PyList [PyStr ''isinstance'', PyList [PyStr ''cp2t3id_42'', PyStr ''<Vertex>''], PyStr ''cubitpy_vertex''],
        PyList [PyStr ''isinstance'', PyList [PyStr ''cp2t3id_42'', PyStr ''<Vertex>''], PyStr ''cubitpy_curve''],
        PyList [PyStr ''isinstance'', PyList [PyStr ''cp2t3id_42'', PyStr ''<Vertex>''], PyStr ''cubitpy_surface''],
        PyList [PyStr ''isinstance'', PyList [PyStr ''cp2t3id_42'', PyStr ''<Vertex>''], PyStr ''cubitpy_volume'']]"
proof -
  note t1 = geometry_type_first_match
    [where w = "\<lparr>sent = [], incoming = [Inr ([], PyBool False), Inr ([], PyBool False), Inr ([], PyBool True), Inr ([], PyBool False)], n_channels = 1, log_file = None, stdout = []\<rparr>"
       and obj = "(CubitObject, PyList [PyStr ''cp2t3id_42'', PyStr ''<Vertex>''])"
       and ?t1.0 = "[]" and ?r1.0 = "PyBool False" and ?t2.0 = "[]" and ?r2.0 = "PyBool False"
       and ?t3.0 = "[]" and ?r3.0 = "PyBool True" and ?t4.0 = "[]" and ?r4.0 = "PyBool False"
       and rest = "[]" and ?b1.0 = False and ?b2.0 = False and ?b3.0 = True and ?b4.0 = False
       and group_method = "\<lambda>(g::unit) w. (Inr vertex, w)"]
  note t2 = geometry_type_first_match
    [where w = "\<lparr>sent = [], incoming = [Inr ([], PyBool False), Inr ([], PyBool False), Inr ([], PyBool False), Inr ([], PyBool False)], n_channels = 1, log_file = None, stdout = []\<rparr>"
       and obj = "(CubitObject, PyList [PyStr ''cp2t3id_42'', PyStr ''<Vertex>''])"
       and ?t1.0 = "[]" and ?r1.0 = "PyBool False" and ?t2.0 = "[]" and ?r2.0 = "PyBool False"
       and ?t3.0 = "[]" and ?r3.0 = "PyBool False" and ?t4.0 = "[]" and ?r4.0 = "PyBool False"
       and rest = "[]" and ?b1.0 = False and ?b2.0 = False and ?b3.0 = False and ?b4.0 = False
       and group_method = "\<lambda>(g::unit) w. (Inr vertex, w)"]
  have p: "py_truthy (PyBool True) = Inr True" "py_truthy (PyBool False) = Inr False"
    by (simp_all add: py_truthy_def)
  from t1 p have c1: "fst (get_geometry_type
          \<lparr>sent = [], incoming = [Inr ([], PyBool False), Inr ([], PyBool False), Inr ([], PyBool True), Inr ([], PyBool False)], n_channels = 1, log_file = None, stdout = []\<rparr>
          (CubitObject, PyList [PyStr ''cp2t3id_42'', PyStr ''<Vertex>''])) = Inr surface \<and>
   sent (snd (get_geometry_type
          \<lparr>sent = [], incoming = [Inr ([], PyBool False), Inr ([], PyBool False), Inr ([], PyBool True), Inr ([], PyBool False)], n_channels = 1, log_file = None, stdout = []\<rparr>
          (CubitObject, PyList [PyStr ''cp2t3id_42'', PyStr ''<Vertex>''])))
     = [PyList [PyStr ''isinstance'', PyList [PyStr ''cp2t3id_42'', PyStr ''<Vertex>''], PyStr ''cubitpy_vertex''],
        PyList [PyStr ''isinstance'', PyList [PyStr ''cp2t3id_42'', PyStr ''<Vertex>''], PyStr ''cubitpy_curve''],
        PyList [PyStr ''isinstance'', PyList [PyStr ''cp2t3id_42'', PyStr ''<Vertex>''], PyStr ''cubitpy_surface'']]"
    by (simp add: eval_nat_numeral)
  from t2 p have c2: "fst (get_geometry_type
          \<lparr>sent = [], incoming = [Inr ([], PyBool False), Inr ([], PyBool False), Inr ([], PyBool False), Inr ([], PyBool False)], n_channels = 1, log_file = None, stdout = []\<rparr>
          (CubitObject, PyList [PyStr ''cp2t3id_42'', PyStr ''<Vertex>'']))
     = Inl (TypeError ''The item is not a valid geometry!'' None) \<and>
   sent (snd (get_geometry_type
          \<lparr>sent = [], incoming = [Inr ([], PyBool False), Inr ([], PyBool False), Inr ([], PyBool False), Inr ([], PyBool False)], n_channels = 1, log_file = None, stdout = []\<rparr>
          (CubitObject, PyList [PyStr ''cp2t3id_42'', PyStr ''<Vertex>''])))
     = [PyList [PyStr ''isinstance'', PyList [PyStr ''cp2t3id_42'', PyStr ''<Vertex>''], PyStr ''cubitpy_vertex''],
        PyList [PyStr ''isinstance'', PyList [PyStr ''cp2t3id_42'', PyStr ''<Vertex>''], PyStr ''cubitpy_curve''],
        PyList [PyStr ''isinstance'', PyList [PyStr ''cp2t3id_42'', PyStr ''<Vertex>''], PyStr ''cubitpy_surface''],
        PyList [PyStr ''isinstance'', PyList [PyStr ''cp2t3id_42'', PyStr ''<Vertex>''], PyStr ''cubitpy_volume'']]"
    by (simp add: eval_nat_numeral)
  from c1 c2 show ?thesis by simp
qed

text \<open>
  C9 as stated fails: the TypeError raised when nothing matches is the same for two
  different objects and carries no value; it does not name the object.
\<close>

theorem geometry_type_error_names_nothing:
  "fst (get_geometry_type
          \<lparr>sent = [], incoming = [Inr ([], PyBool False), Inr ([], PyBool False), Inr ([], PyBool False), Inr ([], PyBool False)], n_channels = 1, log_file = None, stdout = []\<rparr>
          (CubitObject, PyList [PyStr ''cp2t3id_42'', PyStr ''<Vertex>'']))
     = Inl (TypeError ''The item is not a valid geometry!'' None) \<and>
   fst (get_geometry_type
          \<lparr>sent = [], incoming = [Inr ([], PyBool False), Inr ([], PyBool False), Inr ([], PyBool False), Inr ([], PyBool False)], n_channels = 1, log_file = None, stdout = []\<rparr>
          (CubitObject, PyList [PyStr ''cp2t3id_43'', PyStr ''<Group>'']))
     = Inl (TypeError ''The item is not a valid geometry!'' None)"
  by (simp add: get_geometry_type_def isinstance_test_def CubitObject_isinstance_def
      send_and_return_def channel_receive_def py_truthy_def)

section \<open>Setting up the connection\<close>

lemma log_given_iff: "log_given args = (\<exists>arg \<in> set args. take 5 arg = ''-log='')"
  by (simp add: log_given_def list_ex_iff startswith_def eval_nat_numeral)

lemma send_and_return_appends':
  "send_and_return w m False = (r, w1) \<Longrightarrow> sent w1 = sent w @ [m]"
  by (auto simp: send_and_return_def channel_receive_def
      split: list.splits sum.splits prod.splits)

lemma CubitConnect_init_Inr:
  assumes "CubitConnect_init module_file temp_log w args (Some path) = (Inr c, w')"
  shows "log_check c = (\<not> log_given args)"
    and "sent w' = sent w @
           [PyDict ([(PyStr ''__file__'', PyStr module_file),
                     (PyStr ''cubit_bin_path'', PyStr path)]
                    @ (if log_check c then [(PyStr ''tty'', PyStr temp_log)] else [])),
            PyList [PyStr ''init'',
                    PyList (map PyStr (if log_check c then args @ [''-log'', temp_log]
                                       else args))]]"
proof -
  define check where "check = (\<not> log_given args)"
  define params where "params = PyDict ([(PyStr ''__file__'', PyStr module_file),
                     (PyStr ''cubit_bin_path'', PyStr path)]
                    @ (if check then [(PyStr ''tty'', PyStr temp_log)] else []))"
  define init where "init = PyList [PyStr ''init'',
                    PyList (map PyStr (if check then args @ [''-log'', temp_log] else args))]"
  from assms obtain x w1 cubit_id where
      s1: "send_and_return w params False = (Inr x, w1)"
    and s2: "send_and_return w1 init False = (Inr cubit_id, w')"
    and c: "c = \<lparr>log_check = check, cubit = (CubitObjectMain, cubit_id)\<rparr>"
    unfolding CubitConnect_init_def Let_def check_def params_def init_def
    by (auto split: prod.splits sum.splits if_splits)
  from c show "log_check c = (\<not> log_given args)" by (simp add: check_def)
  from send_and_return_appends'[OF s1] send_and_return_appends'[OF s2] c
  show "sent w' = sent w @
           [PyDict ([(PyStr ''__file__'', PyStr module_file),
                     (PyStr ''cubit_bin_path'', PyStr path)]
                    @ (if log_check c then [(PyStr ''tty'', PyStr temp_log)] else [])),
            PyList [PyStr ''init'',
                    PyList (map PyStr (if log_check c then args @ [''-log'', temp_log]
                                       else args))]]"
    by (simp add: params_def init_def)
qed

lemma CubitConnect_init_succeeds:
  assumes "incoming w = Inr (t1, r1) # Inr (t2, r2) # rest" "is_handle r2"
  shows "fst (CubitConnect_init module_file temp_log w args (Some path))
           = Inr \<lparr>log_check = (\<not> log_given args), cubit = (CubitObjectMain, r2)\<rparr>"
  using assms
  by (simp add: CubitConnect_init_def Let_def send_and_return_def channel_receive_def
      CubitObject_init_def is_handle_def split: sum.splits option.splits)

text \<open>
  C8.  Without a path to cubit the constructor raises ValueError and sends nothing.
  With one, a connection it returns has \<open>log_check\<close> set exactly when no argument
  begins with \<open>-log=\<close>; then the parameters carry \<open>tty\<close> and the arguments of the init
  message end with \<open>-log\<close> and the temporary log file, otherwise both are as given.
  The constructor does return a connection when both replies arrive and the second is a
  handle.
\<close>

theorem connection_setup:
  "CubitConnect_init module_file temp_log w args None
     = (Inl (ValueError ''Path to cubit was not given!''), w) \<and>
   (CubitConnect_init module_file temp_log w args (Some path) = (Inr c, w') \<longrightarrow>
      log_check c = (\<not> (\<exists>arg \<in> set args. take 5 arg = ''-log='')) \<and>
      sent w' = sent w @
           [PyDict ([(PyStr ''__file__'', PyStr module_file),
                     (PyStr ''cubit_bin_path'', PyStr path)]
                    @ (if log_check c then [(PyStr ''tty'', PyStr temp_log)] else [])),
            PyList [PyStr ''init'',
                    PyList (map PyStr (if log_check c then args @ [''-log'', temp_log]
                                       else args))]]) \<and>
   (incoming w = Inr (t1, r1) # Inr (t2, r2) # rest \<and> is_handle r2 \<longrightarrow>
      fst (CubitConnect_init module_file temp_log w args (Some path))
        = Inr \<lparr>log_check = (\<not> (\<exists>arg \<in> set args. take 5 arg = ''-log='')),
               cubit = (CubitObjectMain, r2)\<rparr>)"
proof -
  have a: "CubitConnect_init module_file temp_log w args None
     = (Inl (ValueError ''Path to cubit was not given!''), w)"
    by (simp add: CubitConnect_init_def)
  show ?thesis
    using a CubitConnect_init_Inr[of module_file temp_log w args path c w']
      CubitConnect_init_succeeds[of w t1 r1 t2 r2 rest module_file temp_log args path]
    unfolding log_given_iff by blast
qed


text \<open>C8: no path; no log argument given; a log argument given.\<close>

theorem connection_setup_witness:
  "CubitConnect_init ''cubit_wrapper3.py'' ''/tmp/cubit.log''
       \<lparr>sent = [], incoming = [Inr ([], PyNone), Inr ([], PyList [PyStr ''cp2t3id_1'', PyStr ''<cubit>''])], n_channels = 1, log_file = None, stdout = []\<rparr>
       [''-nojournal''] None
     = (Inl (ValueError ''Path to cubit was not given!''),
        \<lparr>sent = [], incoming = [Inr ([], PyNone), Inr ([], PyList [PyStr ''cp2t3id_1'', PyStr ''<cubit>''])], n_channels = 1, log_file = None, stdout = []\<rparr>) \<and>
   CubitConnect_init ''cubit_wrapper3.py'' ''/tmp/cubit.log''
       \<lparr>sent = [], incoming = [Inr ([], PyNone), Inr ([], PyList [PyStr ''cp2t3id_1'', PyStr ''<cubit>''])], n_channels = 1, log_file = None, stdout = []\<rparr>
       [''-nojournal''] (Some ''/opt/cubit'')
     = (Inr \<lparr>log_check = True, cubit = (CubitObjectMain, PyList [PyStr ''cp2t3id_1'', PyStr ''<cubit>''])\<rparr>,
        \<lparr>sent = [PyDict [(PyStr ''__file__'', PyStr ''cubit_wrapper3.py''), (PyStr ''cubit_bin_path'', PyStr ''/opt/cubit''), (PyStr ''tty'', PyStr ''/tmp/cubit.log'')],
                PyList [PyStr ''init'', PyList [PyStr ''-nojournal'', PyStr ''-log'', PyStr ''/tmp/cubit.log'']]],
         incoming = [], n_channels = 1, log_file = None, stdout = []\<rparr>) \<and>
   fst (CubitConnect_init ''cubit_wrapper3.py'' ''/tmp/cubit.log''
       \<lparr>sent = [], incoming = [Inr ([], PyNone), Inr ([], PyList [PyStr ''cp2t3id_1'', PyStr ''<cubit>''])], n_channels = 1, log_file = None, stdout = []\<rparr>
       [''-nojournal'', ''-log=/home/me/my.log''] (Some ''/opt/cubit''))
     = Inr \<lparr>log_check = False, cubit = (CubitObjectMain, PyList [PyStr ''cp2t3id_1'', PyStr ''<cubit>''])\<rparr>"
proof -
  note t1 = connection_setup
    [where module_file = "''cubit_wrapper3.py''" and temp_log = "''/tmp/cubit.log''"
       and w = "\<lparr>sent = [], incoming = [Inr ([], PyNone), Inr ([], PyList [PyStr ''cp2t3id_1'', PyStr ''<cubit>''])], n_channels = 1, log_file = None, stdout = []\<rparr>"
       and args = "[''-nojournal'']" and path = "''/opt/cubit''"
       and c = "\<lparr>log_check = True, cubit = (CubitObjectMain, PyList [PyStr ''cp2t3id_1'', PyStr ''<cubit>''])\<rparr>"
       and w' = "\<lparr>sent = [PyDict [(PyStr ''__file__'', PyStr ''cubit_wrapper3.py''), (PyStr ''cubit_bin_path'', PyStr ''/opt/cubit''), (PyStr ''tty'', PyStr ''/tmp/cubit.log'')],
                PyList [PyStr ''init'', PyList [PyStr ''-nojournal'', PyStr ''-log'', PyStr ''/tmp/cubit.log'']]],
         incoming = [], n_channels = 1, log_file = None, stdout = []\<rparr>"
       and ?t1.0 = "[]" and ?r1.0 = PyNone and ?t2.0 = "[]"
       and ?r2.0 = "PyList [PyStr ''cp2t3id_1'', PyStr ''<cubit>'']" and rest = "[]"]
  note t2 = connection_setup
    [where module_file = "''cubit_wrapper3.py''" and temp_log = "''/tmp/cubit.log''"
       and w = "\<lparr>sent = [], incoming = [Inr ([], PyNone), Inr ([], PyList [PyStr ''cp2t3id_1'', PyStr ''<cubit>''])], n_channels = 1, log_file = None, stdout = []\<rparr>"
       and args = "[''-nojournal'', ''-log=/home/me/my.log'']" and path = "''/opt/cubit''"
       and ?t1.0 = "[]" and ?r1.0 = PyNone and ?t2.0 = "[]"
       and ?r2.0 = "PyList [PyStr ''cp2t3id_1'', PyStr ''<cubit>'']" and rest = "[]"]
  have h: "is_handle (PyList [PyStr ''cp2t3id_1'', PyStr ''<cubit>''])"
    by code_simp
  have e: "CubitConnect_init ''cubit_wrapper3.py'' ''/tmp/cubit.log''
       \<lparr>sent = [], incoming = [Inr ([], PyNone), Inr ([], PyList [PyStr ''cp2t3id_1'', PyStr ''<cubit>''])], n_channels = 1, log_file = None, stdout = []\<rparr>
       [''-nojournal''] (Some ''/opt/cubit'')
     = (Inr \<lparr>log_check = True, cubit = (CubitObjectMain, PyList [PyStr ''cp2t3id_1'', PyStr ''<cubit>''])\<rparr>,
        \<lparr>sent = [PyDict [(PyStr ''__file__'', PyStr ''cubit_wrapper3.py''), (PyStr ''cubit_bin_path'', PyStr ''/opt/cubit''), (PyStr ''tty'', PyStr ''/tmp/cubit.log'')],
                PyList [PyStr ''init'', PyList [PyStr ''-nojournal'', PyStr ''-log'', PyStr ''/tmp/cubit.log'']]],
         incoming = [], n_channels = 1, log_file = None, stdout = []\<rparr>)"
    by code_simp
  from t1 have c1: "CubitConnect_init ''cubit_wrapper3.py'' ''/tmp/cubit.log''
       \<lparr>sent = [], incoming = [Inr ([], PyNone), Inr ([], PyList [PyStr ''cp2t3id_1'', PyStr ''<cubit>''])], n_channels = 1, log_file = None, stdout = []\<rparr>
       [''-nojournal''] None
     = (Inl (ValueError ''Path to cubit was not given!''),
        \<lparr>sent = [], incoming = [Inr ([], PyNone), Inr ([], PyList [PyStr ''cp2t3id_1'', PyStr ''<cubit>''])], n_channels = 1, log_file = None, stdout = []\<rparr>)"
    by blast
  from t1 e have "log_check (\<lparr>log_check = True, cubit = (CubitObjectMain, PyList [PyStr ''cp2t3id_1'', PyStr ''<cubit>''])\<rparr>)
      = (\<not> (\<exists>arg \<in> set [''-nojournal'']. take 5 arg = ''-log=''))"
    by blast
  from t2 h have c3: "fst (CubitConnect_init ''cubit_wrapper3.py'' ''/tmp/cubit.log''
       \<lparr>sent = [], incoming = [Inr ([], PyNone), Inr ([], PyList [PyStr ''cp2t3id_1'', PyStr ''<cubit>''])], n_channels = 1, log_file = None, stdout = []\<rparr>
       [''-nojournal'', ''-log=/home/me/my.log''] (Some ''/opt/cubit''))
     = Inr \<lparr>log_check = False, cubit = (CubitObjectMain, PyList [PyStr ''cp2t3id_1'', PyStr ''<cubit>''])\<rparr>"
    by simp
  from c1 e c3 show ?thesis by (intro conjI)
qed

end
